theory Spec2Isabelle
  imports Complex_Main "HOL-Library.Char_ord" "HOL-Library.List_Lexorder"
    "HOL-Library.Product_Lexorder"
begin

section \<open>Data model\<close>

text \<open>
  Text values are lists of characters. Isabelle's \<open>char\<close> has 256 values, read here as the
  code units U+0000 to U+00FF (Latin-1), which contain every letter of the affix tables of
  \<^verbatim>\<open>sync-hubspot.ts\<close>. The similarity scorer is modelled over any element type.
  JavaScript numbers and SQL \<^verbatim>\<open>DECIMAL\<close> values are rationals; the rounding of
  floating-point arithmetic is not modelled.
\<close>

type_synonym number = rat

text \<open>
  \<^verbatim>\<open>geocode_status TEXT DEFAULT 'pending' CHECK (geocode_status IN
  ('pending', 'success', 'failed', 'manual'))\<close>
\<close>

datatype geocode_status_t = Pending | Success | Failed | Manual

text \<open>
  A row of \<^verbatim>\<open>asset_map.facilities\<close> (column \<^verbatim>\<open>id\<close> is \<open>facility_id\<close>,
  column \<^verbatim>\<open>name\<close> is \<open>facility_name\<close>). SQL \<^verbatim>\<open>NULL\<close> is \<open>None\<close>.
  The TypeScript types \<^verbatim>\<open>Facility\<close> and \<^verbatim>\<open>FacilityToGeocode\<close> are
  projections of a row to the columns a backlog query selects; the scripts read only those
  columns, so the model passes the row itself.
\<close>

record facility =
  facility_id :: string
  hubspot_id :: "string option"
  facility_name :: string
  address :: "string option"
  city :: "string option"
  postal_code :: "string option"
  country :: string
  latitude :: "number option"
  longitude :: "number option"
  geocode_status :: geocode_status_t
  geocode_confidence :: "number option"
  charger_count :: int
  created_at :: nat
  updated_at :: nat

type_synonym facilities = "facility list"

text \<open>\<^verbatim>\<open>HubSpotCompany\<close>: the id and the optional properties of a CRM company.\<close>

record hubspot_company =
  company_id :: string
  prop_name :: "string option"
  prop_address :: "string option"
  prop_city :: "string option"
  prop_zip :: "string option"
  prop_country :: "string option"

text \<open>Errors of a stored-procedure call, as the scripts' \<^verbatim>\<open>rpc\<close> helper throws them.\<close>

datatype rpc_error =
    RpcFailed
  | UniqueViolation
  | NumericOverflow

text \<open>JavaScript truthiness of an optional string, and \<^verbatim>\<open>x || null\<close>.\<close>

definition truthy :: "string option \<Rightarrow> bool" where
  "truthy x = (case x of None \<Rightarrow> False | Some s \<Rightarrow> s \<noteq> [])"

definition or_null :: "string option \<Rightarrow> string option" where
  "or_null x = (if truthy x then x else None)"

section \<open>Persistence gateway: the stored procedures\<close>

text \<open>SQL \<^verbatim>\<open>COALESCE(a, b)\<close>.\<close>

definition coalesce :: "'a option \<Rightarrow> 'a option \<Rightarrow> 'a option" where
  "coalesce a b = (case a of None \<Rightarrow> b | Some v \<Rightarrow> Some v)"

text \<open>
  Assignment of a number to a column \<^verbatim>\<open>DECIMAL(p, s)\<close>: rounded to \<open>s\<close> decimals
  (half away from zero); a value with more than \<open>p - s\<close> integer digits is a numeric field
  overflow (\<open>None\<close>).
\<close>

definition to_decimal :: "nat \<Rightarrow> nat \<Rightarrow> number \<Rightarrow> number option" where
  "to_decimal p s x =
     (let r = sgn x * of_int (floor (\<bar>x\<bar> * 10 ^ s + 1 / 2)) / 10 ^ s
      in if \<bar>r\<bar> < 10 ^ (p - s) then Some r else None)"

definition decimal_column :: "nat \<Rightarrow> nat \<Rightarrow> number option \<Rightarrow> rpc_error + number option" where
  "decimal_column p s v =
     (case v of
        None \<Rightarrow> Inr None
      | Some x \<Rightarrow> (case to_decimal p s x of None \<Rightarrow> Inl NumericOverflow | Some r \<Rightarrow> Inr (Some r)))"

text \<open>
  \<^verbatim>\<open>asset_map_update_facility_from_hubspot\<close>
  (\<^verbatim>\<open>20260102120000_add_hubspot_sync_rpc.sql\<close>): one \<^verbatim>\<open>UPDATE ... WHERE id =
  p_facility_id\<close>. Column \<^verbatim>\<open>hubspot_id\<close> is \<^verbatim>\<open>UNIQUE\<close>: the statement fails
  when it would give the row a non-null reference that another row already holds.
  \<open>now\<close> is the value of \<^verbatim>\<open>NOW()\<close>.
\<close>

definition asset_map_update_facility_from_hubspot ::
  "facilities \<Rightarrow> nat \<Rightarrow> string \<Rightarrow> string option \<Rightarrow> string option \<Rightarrow> string option
     \<Rightarrow> string option \<Rightarrow> rpc_error + facilities" where
  "asset_map_update_facility_from_hubspot db now p_facility_id p_hubspot_id p_addr p_cty p_postal =
     (if p_hubspot_id \<noteq> None
         \<and> list_ex (\<lambda>f. facility_id f = p_facility_id) db
         \<and> list_ex (\<lambda>g. facility_id g \<noteq> p_facility_id \<and> hubspot_id g = p_hubspot_id) db
      then Inl UniqueViolation
      else Inr (map (\<lambda>f. if facility_id f = p_facility_id
                          then f\<lparr>hubspot_id := p_hubspot_id, address := p_addr, city := p_cty,
                                 postal_code := p_postal, updated_at := now\<rparr>
                          else f) db))"

text \<open>
  \<^verbatim>\<open>asset_map_update_facility_geocode\<close> as the later migration
  \<^verbatim>\<open>fix_geocode_rpc_null\<close> replaces it: latitude and longitude are
  \<^verbatim>\<open>COALESCE(p_latitude, latitude)\<close> and \<^verbatim>\<open>COALESCE(p_longitude, longitude)\<close>.
\<close>

definition asset_map_update_facility_geocode ::
  "facilities \<Rightarrow> nat \<Rightarrow> string \<Rightarrow> number option \<Rightarrow> number option \<Rightarrow> geocode_status_t
     \<Rightarrow> number option \<Rightarrow> rpc_error + facilities" where
  "asset_map_update_facility_geocode db now p_facility_id p_latitude p_longitude p_geocode_status
       p_geocode_confidence =
     (if \<not> list_ex (\<lambda>f. facility_id f = p_facility_id) db then Inr db
      else
        (case decimal_column 10 8 p_latitude of Inl e \<Rightarrow> Inl e | Inr lat \<Rightarrow>
        (case decimal_column 11 8 p_longitude of Inl e \<Rightarrow> Inl e | Inr lon \<Rightarrow>
        (case decimal_column 3 2 p_geocode_confidence of Inl e \<Rightarrow> Inl e | Inr conf \<Rightarrow>
          Inr (map (\<lambda>f. if facility_id f = p_facility_id
                          then f\<lparr>latitude := coalesce lat (latitude f),
                                 longitude := coalesce lon (longitude f),
                                 geocode_status := p_geocode_status,
                                 geocode_confidence := conf,
                                 updated_at := now\<rparr>
                          else f) db)))))"

text \<open>
  The backlog queries. \<^verbatim>\<open>ORDER BY\<close> is modelled by the order of the code units
  (the collation of the database is not part of the repository). \<^verbatim>\<open>LIMIT\<close> with a
  negative count is an error of the statement, with \<^verbatim>\<open>NULL\<close> it is no limit.
\<close>

definition sql_limit :: "int option \<Rightarrow> 'a list \<Rightarrow> rpc_error + 'a list" where
  "sql_limit p_limit rows =
     (case p_limit of
        None \<Rightarrow> Inr rows
      | Some n \<Rightarrow> if n < 0 then Inl RpcFailed else Inr (take (nat n) rows))"

definition needs_sync :: "string option \<Rightarrow> facility \<Rightarrow> bool" where
  "needs_sync p_country f =
     (address f = None \<and> hubspot_id f = None \<and> (p_country = None \<or> Some (country f) = p_country))"

definition asset_map_get_facilities_for_sync ::
  "facilities \<Rightarrow> int option \<Rightarrow> string option \<Rightarrow> rpc_error + facility list" where
  "asset_map_get_facilities_for_sync db p_limit p_country =
     sql_limit p_limit (sort_key facility_name (filter (needs_sync p_country) db))"

definition needs_geocoding :: "string option \<Rightarrow> facility \<Rightarrow> bool" where
  "needs_geocoding p_country f =
     (address f \<noteq> None \<and> latitude f = None \<and> (p_country = None \<or> Some (country f) = p_country))"

definition asset_map_get_facilities_for_geocoding ::
  "facilities \<Rightarrow> string option \<Rightarrow> int option \<Rightarrow> rpc_error + facility list" where
  "asset_map_get_facilities_for_geocoding db p_country p_limit =
     sql_limit p_limit
       (sort_key (\<lambda>f. (country f, facility_name f)) (filter (needs_geocoding p_country) db))"

section \<open>The scripts' environment\<close>

text \<open>Exceptions of the TypeScript code.\<close>

datatype exn =
    TypeError
  | RpcError rpc_error
  | ApiError

text \<open>The stored-procedure calls of the two scripts, with the facility id of an update.\<close>

datatype rpc_call =
    Get_facilities_for_sync
  | Update_facility_from_hubspot string
  | Get_facilities_for_geocoding
  | Update_facility_geocode string

text \<open>A HubSpot company search: filter operator, value and result limit; its answer.\<close>

datatype filter_operator = Eq | ContainsToken

record search_request =
  operator :: filter_operator
  search_value :: string
  search_limit :: nat

record search_response =
  total :: "nat option"
  results :: "hubspot_company list"

text \<open>An answer of \<^verbatim>\<open>fetch\<close>: it throws, or answers with a status that is not ok, or
  answers with a body (a body that does not parse throws as well).\<close>

datatype 'a fetch_result = Fetch_throws | Http_error nat | Http_ok 'a

record kartverket_adresse =
  rep_lat :: number
  rep_lon :: number
  adressetekst :: string
  postnummer :: string
  poststed :: string

record here_item =
  pos_lat :: number
  pos_lng :: number
  queryScore :: "number option"
  label :: string

text \<open>
  Everything outside the code: the environment variables, the external services as
  functions of the request, the transport failures of stored-procedure calls, and the clock.
\<close>

record env =
  HUBSPOT_API_KEY :: "string option"
  SUPABASE_URL :: "string option"
  SUPABASE_KEY :: "string option"
  HERE_API_KEY :: "string option"
  doSearch :: "search_request \<Rightarrow> exn + search_response"
  kartverket_fetch :: "string \<Rightarrow> kartverket_adresse list option fetch_result"
  here_fetch :: "string \<Rightarrow> string \<Rightarrow> here_item list option fetch_result"
  rpc_fails :: "rpc_call \<Rightarrow> bool"
  clock :: nat

text \<open>
  The helper \<^verbatim>\<open>rpc\<close> throws when the answer is not ok. A call without the URL or the
  key of the database does not reach it.
\<close>

definition rpc :: "env \<Rightarrow> rpc_call \<Rightarrow> (rpc_error + 'a) \<Rightarrow> exn + 'a" where
  "rpc e c run =
     (if \<not> truthy (SUPABASE_URL e) \<or> \<not> truthy (SUPABASE_KEY e) \<or> rpc_fails e c
      then Inl (RpcError RpcFailed)
      else (case run of Inl err \<Rightarrow> Inl (RpcError err) | Inr v \<Rightarrow> Inr v))"

text \<open>\<^verbatim>\<open>updateFacility\<close> (\<^verbatim>\<open>sync-hubspot.ts\<close>).\<close>

definition updateFacility :: "env \<Rightarrow> facilities \<Rightarrow> facility \<Rightarrow> hubspot_company \<Rightarrow> exn + facilities" where
  "updateFacility e db f company =
     rpc e (Update_facility_from_hubspot (facility_id f))
       (asset_map_update_facility_from_hubspot db (clock e) (facility_id f)
          (Some (company_id company)) (or_null (prop_address company)) (or_null (prop_city company))
          (or_null (prop_zip company)))"

text \<open>\<^verbatim>\<open>GeocodeResult\<close>, \<^verbatim>\<open>updateFacilityGeocode\<close> and \<^verbatim>\<open>markFacilityFailed\<close>
  (the geocoding script).\<close>

record geocode_result =
  res_latitude :: number
  res_longitude :: number
  res_confidence :: number
  provider :: string

definition updateFacilityGeocode :: "env \<Rightarrow> facilities \<Rightarrow> string \<Rightarrow> geocode_result \<Rightarrow> exn + facilities" where
  "updateFacilityGeocode e db facilityId result =
     rpc e (Update_facility_geocode facilityId)
       (asset_map_update_facility_geocode db (clock e) facilityId (Some (res_latitude result))
          (Some (res_longitude result)) Success (Some (res_confidence result)))"

definition markFacilityFailed :: "env \<Rightarrow> facilities \<Rightarrow> string \<Rightarrow> exn + facilities" where
  "markFacilityFailed e db facilityId =
     rpc e (Update_facility_geocode facilityId)
       (asset_map_update_facility_geocode db (clock e) facilityId None None Failed None)"

section \<open>Strings\<close>

text \<open>
  The white space of \<^verbatim>\<open>\s\<close> and of \<^verbatim>\<open>trim\<close> among the code units below U+0100: tab,
  line feed, vertical tab, form feed, carriage return, space and no-break space.
\<close>

definition is_space :: "char \<Rightarrow> bool" where
  "is_space c = (c \<in> set [CHR 0x09, CHR 0x0A, CHR 0x0B, CHR 0x0C, CHR 0x0D, CHR 0x20, CHR 0xA0])"

definition trim :: "string \<Rightarrow> string" where
  "trim s = rev (dropWhile is_space (rev (dropWhile is_space s)))"

text \<open>A value in a template literal: \<^verbatim>\<open>null\<close> is printed as the word.\<close>

definition template :: "string option \<Rightarrow> string" where
  "template x = (case x of None \<Rightarrow> ''null'' | Some s \<Rightarrow> s)"

text \<open>\<^verbatim>\<open>parts.join(sep)\<close>.\<close>

fun join :: "string \<Rightarrow> string list \<Rightarrow> string" where
  "join sep [] = []"
| "join sep [x] = x"
| "join sep (x # y # ys) = x @ sep @ join sep (y # ys)"

section \<open>Similarity scorer\<close>

text \<open>
  \<^verbatim>\<open>similarity\<close> (\<^verbatim>\<open>sync-hubspot.ts\<close>), over any type of code units.
  \<^verbatim>\<open>charAt\<close> out of range is the empty string (\<open>None\<close>). The array \<^verbatim>\<open>costs\<close> is
  a list; a write at its length extends it (a write beyond would leave holes, filled with 0
  here; the loops never write beyond the length). \<open>cost_step\<close> is the body of the inner
  loop at \<open>i\<close> and \<open>j\<close> on the pair of \<^verbatim>\<open>costs\<close> and \<^verbatim>\<open>lastValue\<close>,
  \<open>cost_row\<close> one turn of the outer loop, \<open>cost_rows\<close> the outer loop.
\<close>

definition charAt :: "'a list \<Rightarrow> nat \<Rightarrow> 'a option" where
  "charAt s i = (if i < length s then Some (s ! i) else None)"

definition array_set :: "nat list \<Rightarrow> nat \<Rightarrow> nat \<Rightarrow> nat list" where
  "array_set xs j v =
     (if j < length xs then xs[j := v] else xs @ replicate (j - length xs) 0 @ [v])"

definition cost_step :: "'a list \<Rightarrow> 'a list \<Rightarrow> nat \<Rightarrow> nat \<Rightarrow> nat list \<times> nat \<Rightarrow> nat list \<times> nat" where
  "cost_step shorter longer i j st =
     (case st of (costs, lastValue) \<Rightarrow>
        if i = 0 then (array_set costs j j, lastValue)
        else if j > 0 then
          (let newValue = costs ! (j - 1);
               newValue' = (if charAt shorter (i - 1) \<noteq> charAt longer (j - 1)
                            then min (min newValue lastValue) (costs ! j) + 1
                            else newValue)
           in (array_set costs (j - 1) lastValue, newValue'))
        else (costs, lastValue))"

definition cost_row :: "'a list \<Rightarrow> 'a list \<Rightarrow> nat \<Rightarrow> nat list \<Rightarrow> nat list" where
  "cost_row shorter longer i costs =
     (case fold (cost_step shorter longer i) [0..<Suc (length longer)] (costs, i) of
        (costs', lastValue) \<Rightarrow>
          if i > 0 then array_set costs' (length longer) lastValue else costs')"

definition cost_rows :: "'a list \<Rightarrow> 'a list \<Rightarrow> nat list" where
  "cost_rows shorter longer = fold (cost_row shorter longer) [0..<Suc (length shorter)] []"

definition similarity :: "'a list \<Rightarrow> 'a list \<Rightarrow> number" where
  "similarity a b =
     (let longer = (if length a > length b then a else b);
          shorter = (if length a > length b then b else a)
      in if length longer = 0 then 1
         else (of_nat (length longer) - of_nat (cost_rows shorter longer ! length longer))
                / of_nat (length longer))"

text \<open>
  The edit distance between the first \<open>i\<close> units of \<open>s\<close> and the first \<open>j\<close> units of
  \<open>l\<close>, by the recurrence the loops follow: the value the proofs show the array to hold.
\<close>

fun edit_dist :: "'a list \<Rightarrow> 'a list \<Rightarrow> nat \<Rightarrow> nat \<Rightarrow> nat" where
  "edit_dist s l 0 j = j"
| "edit_dist s l (Suc i) 0 = Suc i"
| "edit_dist s l (Suc i) (Suc j) =
     (if s ! i \<noteq> l ! j
      then min (min (edit_dist s l i j) (edit_dist s l (Suc i) j)) (edit_dist s l i (Suc j)) + 1
      else edit_dist s l i j)"


section \<open>Name normalizer\<close>

text \<open>
  Case-insensitive matching of a regular expression with flag \<^verbatim>\<open>i\<close> compares the
  canonical forms of two code units, their upper-case forms: among the code units below
  U+0100 the letters a to z and U+00E0 to U+00FE without U+00F7 have one 32 below; U+00B5 and
  U+00FF have upper-case forms above U+00FF that no other code unit below U+0100 shares, and
  U+00DF has none of one unit, so the three are canonical for themselves.
\<close>

definition canonicalize :: "char \<Rightarrow> char" where
  "canonicalize c =
     (let n = (of_char c :: nat)
      in if (97 \<le> n \<and> n \<le> 122) \<or> (224 \<le> n \<and> n \<le> 254 \<and> n \<noteq> 247)
         then char_of (n - 32) else c)"

text \<open>\<^verbatim>\<open>toLowerCase\<close> below U+0100: A to Z and U+00C0 to U+00DE without U+00D7.\<close>

definition toLowerCase_char :: "char \<Rightarrow> char" where
  "toLowerCase_char c =
     (let n = (of_char c :: nat)
      in if (65 \<le> n \<and> n \<le> 90) \<or> (192 \<le> n \<and> n \<le> 222 \<and> n \<noteq> 215)
         then char_of (n + 32) else c)"

definition toLowerCase :: "string \<Rightarrow> string" where
  "toLowerCase s = map toLowerCase_char s"

text \<open>
  The regular expressions of \<^verbatim>\<open>normalizeName\<close> as predicates on the rest of the string:
  each combinator is one piece of a pattern followed by the pattern \<open>L\<close> of what comes
  after it. \<open>eos\<close> is \<^verbatim>\<open>$\<close>, \<open>ws_plus\<close> is \<^verbatim>\<open>\s+\<close>, \<open>ws_star\<close> is \<^verbatim>\<open>\s*\<close>,
  \<open>lit_ci\<close> a literal under flag \<^verbatim>\<open>i\<close>, \<open>alt_ci\<close> an alternation of literals,
  \<open>dot_star\<close> is \<^verbatim>\<open>.*\<close> (the dot matches no line terminator). A repetition takes
  any number \<open>k\<close> of the units of the run that the rest starts with.
\<close>

type_synonym lang = "string \<Rightarrow> bool"

definition eos :: lang where
  "eos r = (r = [])"

definition ws_plus :: "lang \<Rightarrow> lang" where
  "ws_plus L r = list_ex (\<lambda>k. L (drop k r)) [1..<Suc (length (takeWhile is_space r))]"

definition ws_star :: "lang \<Rightarrow> lang" where
  "ws_star L r = list_ex (\<lambda>k. L (drop k r)) [0..<Suc (length (takeWhile is_space r))]"

definition ci_match :: "string \<Rightarrow> string \<Rightarrow> bool" where
  "ci_match pat s = list_all2 (\<lambda>p c. canonicalize p = canonicalize c) pat s"

definition lit_ci :: "string \<Rightarrow> lang \<Rightarrow> lang" where
  "lit_ci pat L r =
     (length pat \<le> length r \<and> ci_match pat (take (length pat) r) \<and> L (drop (length pat) r))"

definition alt_ci :: "string list \<Rightarrow> lang \<Rightarrow> lang" where
  "alt_ci pats L r = list_ex (\<lambda>pat. lit_ci pat L r) pats"

definition is_line_terminator :: "char \<Rightarrow> bool" where
  "is_line_terminator c = (c = CHR 0x0A \<or> c = CHR 0x0D)"

definition dot_star :: "lang \<Rightarrow> lang" where
  "dot_star L r =
     list_ex (\<lambda>k. L (drop k r))
       [0..<Suc (length (takeWhile (\<lambda>c. \<not> is_line_terminator c) r))]"

text \<open>
  \<^verbatim>\<open>s.replace(/R$/, "")\<close> for a pattern that ends with \<^verbatim>\<open>$\<close>: the match starts at the
  first position from which the pattern matches the whole rest, and the string is cut there.
\<close>

definition replace_to_end :: "lang \<Rightarrow> string \<Rightarrow> string" where
  "replace_to_end L s =
     (case find (\<lambda>p. L (drop p s)) [0..<Suc (length s)] of None \<Rightarrow> s | Some p \<Rightarrow> take p s)"

text \<open>
  \<^verbatim>\<open>s.replace(new RegExp(`^${prefix}\\s+`, "i"), "")\<close>: the prefix at the start, then the
  longest run of white space, at least one. No prefix or suffix of the tables holds a
  character that is special in a regular expression.
\<close>

definition prefix_matches :: "string \<Rightarrow> string \<Rightarrow> bool" where
  "prefix_matches prefix s =
     (let rest = drop (length prefix) s
      in length prefix \<le> length s \<and> ci_match prefix (take (length prefix) s)
         \<and> rest \<noteq> [] \<and> is_space (hd rest))"

definition remove_prefix :: "string \<Rightarrow> string \<Rightarrow> string" where
  "remove_prefix prefix s =
     (if prefix_matches prefix s then dropWhile is_space (drop (length prefix) s) else s)"

text \<open>\<^verbatim>\<open>s.replace(new RegExp(`\\s+${suffix}$`, "i"), "")\<close>.\<close>

definition remove_suffix :: "string \<Rightarrow> string \<Rightarrow> string" where
  "remove_suffix suffix s = replace_to_end (ws_plus (lit_ci suffix eos)) s"

text \<open>\<^verbatim>\<open>HOUSING_PATTERNS\<close>: the prefixes and the suffixes of a country.\<close>

definition patterns_Norway :: "string list \<times> string list" where
  "patterns_Norway =
     ([''Sameiet'', ''Borettslaget'', ''Boligsameiet'', ''AL'', ''AS'', ''Andelslaget''],
      [''Borettslag'', ''Sameie'', ''Boligsameie'', ''Garasjelag'', ''Garasjesameie'', ''SA'',
       ''AS''])"

definition patterns_Sweden :: "string list \<times> string list" where
  "patterns_Sweden =
     ([''Bostadsr'' @ [CHR 0xE4] @ ''ttsf'' @ [CHR 0xF6] @ ''reningen'', ''BRF'', ''Brf'',
       ''HSB Bostadsr'' @ [CHR 0xE4] @ ''ttsf'' @ [CHR 0xF6] @ ''rening'',
       ''Riksbyggen Bostadsr'' @ [CHR 0xE4] @ ''ttsf'' @ [CHR 0xF6] @ ''rening'',
       ''Riksbyggens Bostadsr'' @ [CHR 0xE4] @ ''ttsf'' @ [CHR 0xF6] @ ''rening'',
       ''Anl'' @ [CHR 0xE4] @ ''ggningssamf'' @ [CHR 0xE4] @ ''lligheten''],
      [''Samf'' @ [CHR 0xE4] @ ''llighetsf'' @ [CHR 0xF6] @ ''rening'',
       ''Bostadsr'' @ [CHR 0xE4] @ ''ttsf'' @ [CHR 0xF6] @ ''rening'',
       ''Samf'' @ [CHR 0xE4] @ ''llighet'',
       ''i Stockholm'', ''i G'' @ [CHR 0xF6] @ ''teborg'', ''i Uppsala''])"

definition patterns_Denmark :: "string list \<times> string list" where
  "patterns_Denmark =
     ([''Andelsboligforening'', ''A/B'', ''Ejerforening'', ''E/F''],
      [''Andelsboligforening'', ''Ejerforening''])"

text \<open>
  \<^verbatim>\<open>HOUSING_PATTERNS[country] || HOUSING_PATTERNS.Norway\<close>. The table is an object
  literal: a country that is the name of a property of \<^verbatim>\<open>Object.prototype\<close> finds that
  property, which is truthy and has no \<^verbatim>\<open>prefixes\<close>, and the loop over them throws a
  \<^verbatim>\<open>TypeError\<close> (\<open>None\<close>). Any other unknown country gets the patterns of Norway.
\<close>

definition object_prototype_keys :: "string list" where
  "object_prototype_keys =
     [''constructor'', ''__defineGetter__'', ''__defineSetter__'', ''hasOwnProperty'',
      ''__lookupGetter__'', ''__lookupSetter__'', ''isPrototypeOf'', ''propertyIsEnumerable'',
      ''toString'', ''valueOf'', ''__proto__'', ''toLocaleString'']"

definition housing_patterns :: "string \<Rightarrow> (string list \<times> string list) option" where
  "housing_patterns c =
     (if c = ''Norway'' then Some patterns_Norway
      else if c = ''Sweden'' then Some patterns_Sweden
      else if c = ''Denmark'' then Some patterns_Denmark
      else if c \<in> set object_prototype_keys then None
      else Some patterns_Norway)"

text \<open>The six replacements of noise at the end of the name, in the order of the source.\<close>

definition roman_numerals :: lang where
  "roman_numerals =
     ws_plus (alt_ci [''I'', ''II'', ''III'', ''IV'', ''V'', ''1'', ''2'', ''3'', ''4'', ''5'']
       (ws_star eos))"

definition vendor_suffix :: lang where
  "vendor_suffix =
     ws_star (lit_ci ''-'' (ws_star (alt_ci [''Zaptec'', ''Easee'', ''laddboxar'', ''all'']
       (dot_star eos))))"

definition all_suffix :: lang where
  "all_suffix = ws_star (lit_ci ''-'' (ws_star (lit_ci ''all'' (ws_star eos))))"

definition al_suffix :: lang where
  "al_suffix = ws_plus (lit_ci ''A/L'' (ws_star eos))"

definition fellesplass_suffix :: lang where
  "fellesplass_suffix = ws_plus (lit_ci ''(fellesplass)'' (ws_star eos))"

definition swedish_cities :: "string list" where
  "swedish_cities =
     [''Stockholm'', ''G'' @ [CHR 0xF6] @ ''teborg'', ''Uppsala'', ''Malm'' @ [CHR 0xF6],
      [CHR 0xD6] @ ''rebro'', ''Sundbyberg'', ''Sk'' @ [CHR 0xF6] @ ''ndal'', ''Lund'',
      ''Karlstad'', ''Link'' @ [CHR 0xF6] @ ''ping'', ''Bromma'', [CHR 0xC5] @ ''rsta'',
      ''Vaxholm'']"

definition city_suffix :: lang where
  "city_suffix = ws_plus (lit_ci ''i'' (ws_plus (alt_ci swedish_cities (ws_star eos))))"

definition noise_patterns :: "lang list" where
  "noise_patterns =
     [roman_numerals, vendor_suffix, all_suffix, al_suffix, fellesplass_suffix, city_suffix]"

text \<open>\<^verbatim>\<open>.replace(/[,.:;!?]+/g, "")\<close> and \<^verbatim>\<open>.replace(/\s+/g, " ")\<close>: every run of white
  space becomes one space (\<open>in_run\<close> tells that the unit before was white space).\<close>

definition is_punctuation :: "char \<Rightarrow> bool" where
  "is_punctuation c = (c \<in> set '',.:;!?'')"

definition remove_punctuation :: "string \<Rightarrow> string" where
  "remove_punctuation s = filter (\<lambda>c. \<not> is_punctuation c) s"

fun collapse_spaces :: "bool \<Rightarrow> string \<Rightarrow> string" where
  "collapse_spaces in_run [] = []"
| "collapse_spaces in_run (c # cs) =
     (if is_space c
      then (if in_run then collapse_spaces True cs else CHR '' '' # collapse_spaces True cs)
      else c # collapse_spaces False cs)"

text \<open>\<^verbatim>\<open>normalizeName\<close>: \<open>normalize_with\<close> is its body once the patterns are found.\<close>

definition normalize_with :: "string list \<times> string list \<Rightarrow> string \<Rightarrow> string" where
  "normalize_with patterns name =
     trim (collapse_spaces False (remove_punctuation
       (fold replace_to_end noise_patterns
          (fold remove_suffix (snd patterns) (fold remove_prefix (fst patterns) (trim name))))))"

definition normalizeName :: "string \<Rightarrow> string \<Rightarrow> exn + string" where
  "normalizeName name c =
     (case housing_patterns c of
        None \<Rightarrow> Inl TypeError
      | Some patterns \<Rightarrow> Inr (normalize_with patterns name))"

text \<open>
  A name is free of affixes for a country when none of the country's prefix patterns, none of
  its suffix patterns and none of the six noise patterns matches in it (\<open>matches_somewhere\<close>:
  the pattern matches from some position to the end).
\<close>

definition matches_somewhere :: "lang \<Rightarrow> string \<Rightarrow> bool" where
  "matches_somewhere L s = list_ex (\<lambda>p. L (drop p s)) [0..<Suc (length s)]"

definition affix_free :: "string \<Rightarrow> string \<Rightarrow> bool" where
  "affix_free c s =
     (case housing_patterns c of
        None \<Rightarrow> False
      | Some patterns \<Rightarrow>
          \<not> list_ex (\<lambda>prefix. prefix_matches prefix s) (fst patterns)
          \<and> \<not> list_ex (\<lambda>suffix. matches_somewhere (ws_plus (lit_ci suffix eos)) s)
                (snd patterns)
          \<and> \<not> list_ex (\<lambda>L. matches_somewhere L s) noise_patterns)"

text \<open>
  \<^verbatim>\<open>extractTokens\<close>: \<^verbatim>\<open>split(/[\s\-\/\(\)]+/)\<close> cuts at every run of separators (a
  separator at the start or the end leaves an empty piece there); then the filters and the
  first four.
\<close>

definition is_separator :: "char \<Rightarrow> bool" where
  "is_separator c = (is_space c \<or> c \<in> set ''-/()'')"

fun split_separators :: "bool \<Rightarrow> string \<Rightarrow> string \<Rightarrow> string list" where
  "split_separators in_run acc [] = [rev acc]"
| "split_separators in_run acc (c # cs) =
     (if is_separator c
      then (if in_run then split_separators True acc cs
            else rev acc # split_separators True [] cs)
      else split_separators False (c # acc) cs)"

definition stopwords :: "string list" where
  "stopwords =
     [''i'', ''och'', ''og'', ''nr'', ''number'', ''ved'', ''p'' @ [CHR 0xE5], ''av'', ''til'',
      ''for'', ''all'', ''a/l'', ''al'', ''as'', ''sa'', ''sameiet'', ''borettslaget'',
      ''boligsameiet'', ''boligsameie'', ''borettslag'', ''sameie'', ''garasjelag'',
      ''garasjesameie'', ''brf'',
      ''bostadsr'' @ [CHR 0xE4] @ ''ttsf'' @ [CHR 0xF6] @ ''reningen'']"

definition extractTokens :: "string \<Rightarrow> string list" where
  "extractTokens name =
     take 4 (filter (\<lambda>token. token \<notin> set stopwords)
       (filter (\<lambda>token. length token > 2)
          (split_separators False [] (toLowerCase name))))"

text \<open>A string in which every white space is a single space between other units
  (\<open>in_run\<close>: the unit before was white space): what \<open>collapse_spaces\<close> produces.\<close>

fun squeezed :: "bool \<Rightarrow> string \<Rightarrow> bool" where
  "squeezed in_run [] = True"
| "squeezed in_run (c # cs) =
     (if is_space c then \<not> in_run \<and> c = CHR '' '' \<and> squeezed True cs else squeezed False cs)"

section \<open>Candidate matcher\<close>

text \<open>\<^verbatim>\<open>MatchResult\<close>; the match types are \<^verbatim>\<open>"exact"\<close>, \<^verbatim>\<open>"normalized"\<close>,
  \<^verbatim>\<open>"token"\<close>, \<^verbatim>\<open>"fuzzy"\<close> and \<^verbatim>\<open>"none"\<close>.\<close>

datatype match_type = Exact_match | Normalized_match | Token_match | Fuzzy_match | None_match

record match_result =
  mr_facility :: facility
  mr_company :: "hubspot_company option"
  matchType :: match_type
  confidence :: number

definition str_or_empty :: "string option \<Rightarrow> string" where
  "str_or_empty x = (if truthy x then the x else [])"

definition total_or_0 :: "search_response \<Rightarrow> nat" where
  "total_or_0 r = (case total r of None \<Rightarrow> 0 | Some n \<Rightarrow> n)"

text \<open>\<^verbatim>\<open>s.includes(t)\<close>: \<open>t\<close> occurs in \<open>s\<close>.\<close>

definition str_includes :: "string \<Rightarrow> string \<Rightarrow> bool" where
  "str_includes s t = list_ex (\<lambda>k. take (length t) (drop k s) = t) [0..<Suc (length s)]"

text \<open>
  The exact tier: the search by equal name, limit 5; only the first result is looked at. A
  search that throws is caught: the tier finds nothing.
\<close>

definition exact_pick :: "facility \<Rightarrow> hubspot_company list \<Rightarrow> match_result option" where
  "exact_pick f rs =
     (case rs of
        [] \<Rightarrow> None
      | match # others \<Rightarrow>
          if truthy (prop_address match)
          then Some \<lparr>mr_facility = f, mr_company = Some match, matchType = Exact_match,
                     confidence = 1\<rparr>
          else None)"

definition exact_tier :: "env \<Rightarrow> facility \<Rightarrow> match_result option" where
  "exact_tier e f =
     (case doSearch e \<lparr>operator = Eq, search_value = facility_name f, search_limit = 5\<rparr> of
        Inl x \<Rightarrow> None
      | Inr exactResult \<Rightarrow> exact_pick f (results exactResult))"

text \<open>
  The normalized tier, skipped when the normalized name is the name: the search by the first
  word of the normalized name (\<^verbatim>\<open>split(" ")[0]\<close>), limit 20; the first company whose
  normalized name is more than 0.65 similar and that has an address.
\<close>

definition normalized_candidate ::
  "facility \<Rightarrow> string \<Rightarrow> hubspot_company \<Rightarrow> exn + match_result option" where
  "normalized_candidate f normalizedName company =
     (case normalizeName (str_or_empty (prop_name company)) (country f) of
        Inl x \<Rightarrow> Inl x
      | Inr companyNormalized \<Rightarrow>
          Inr (let sim = similarity (toLowerCase normalizedName) (toLowerCase companyNormalized)
               in if sim > 65 / 100 \<and> truthy (prop_address company)
                  then Some \<lparr>mr_facility = f, mr_company = Some company,
                             matchType = Normalized_match, confidence = sim\<rparr>
                  else None))"

fun normalized_scan :: "facility \<Rightarrow> string \<Rightarrow> hubspot_company list \<Rightarrow> match_result option" where
  "normalized_scan f normalizedName [] = None"
| "normalized_scan f normalizedName (company # rest) =
     (case normalized_candidate f normalizedName company of
        Inl x \<Rightarrow> None
      | Inr (Some r) \<Rightarrow> Some r
      | Inr None \<Rightarrow> normalized_scan f normalizedName rest)"

definition normalized_tier :: "env \<Rightarrow> facility \<Rightarrow> string \<Rightarrow> match_result option" where
  "normalized_tier e f normalizedName =
     (if normalizedName \<noteq> facility_name f
      then (case doSearch e \<lparr>operator = ContainsToken,
                               search_value = takeWhile (\<lambda>c. c \<noteq> CHR '' '') normalizedName,
                               search_limit = 20\<rparr> of
              Inl x \<Rightarrow> None
            | Inr normalizedResult \<Rightarrow> normalized_scan f normalizedName (results normalizedResult))
      else None)"

text \<open>
  The token tier. The loop over the tokens: the state is \<^verbatim>\<open>tokenResult\<close> and
  \<^verbatim>\<open>searchToken\<close>; \<open>searched\<close> records the tokens searched for, in order. The answer of
  a token is kept when no answer is kept yet or when its total is under 100, and a total under
  100 ends the loop.
\<close>

datatype 'a loop_step = Break 'a | Continue 'a

definition token_step ::
  "search_response option \<times> string \<Rightarrow> string \<Rightarrow> search_response
     \<Rightarrow> (search_response option \<times> string) loop_step" where
  "token_step st token result =
     (if fst st = None \<or> total_or_0 result < 100
      then (if total_or_0 result < 100 then Break (Some result, token)
            else Continue (Some result, token))
      else Continue st)"

fun token_search ::
  "env \<Rightarrow> string list \<Rightarrow> search_response option \<times> string \<Rightarrow> string list
     \<Rightarrow> exn + ((search_response option \<times> string) \<times> string list)" where
  "token_search e [] st searched = Inr (st, searched)"
| "token_search e (token # rest) st searched =
     (case doSearch e \<lparr>operator = ContainsToken, search_value = token, search_limit = 50\<rparr> of
        Inl x \<Rightarrow> Inl x
      | Inr result \<Rightarrow>
          (case token_step st token result of
             Break st' \<Rightarrow> Inr (st', searched @ [token])
           | Continue st' \<Rightarrow> token_search e rest st' (searched @ [token])))"

text \<open>The score of a company: 0.4 of the token overlap and 0.6 of the name similarity.\<close>

definition combined_score :: "string \<Rightarrow> string list \<Rightarrow> string \<Rightarrow> number" where
  "combined_score normalizedName tokens companyNormalized =
     (let companyTokens = extractTokens companyNormalized;
          overlap = length (filter (\<lambda>t. list_ex (\<lambda>ct. str_includes ct t \<or> str_includes t ct
                                                       \<or> similarity t ct > 8 / 10)
                                          companyTokens) tokens);
          tokenScore = of_nat overlap / of_nat (max (length tokens) 1);
          nameScore = similarity (toLowerCase normalizedName) (toLowerCase companyNormalized)
      in tokenScore * (4 / 10) + nameScore * (6 / 10))"

definition candidate_score ::
  "facility \<Rightarrow> string \<Rightarrow> string list \<Rightarrow> hubspot_company \<Rightarrow> exn + number" where
  "candidate_score f normalizedName tokens company =
     (case normalizeName (str_or_empty (prop_name company)) (country f) of
        Inl x \<Rightarrow> Inl x
      | Inr companyNormalized \<Rightarrow> Inr (combined_score normalizedName tokens companyNormalized))"

definition better :: "hubspot_company \<Rightarrow> number \<Rightarrow> hubspot_company option \<times> number
    \<Rightarrow> hubspot_company option \<times> number" where
  "better company combinedScore best =
     (if combinedScore > snd best \<and> combinedScore > 55 / 100 then (Some company, combinedScore)
      else best)"

fun token_scan ::
  "facility \<Rightarrow> string \<Rightarrow> string list \<Rightarrow> hubspot_company list
     \<Rightarrow> hubspot_company option \<times> number \<Rightarrow> exn + (hubspot_company option \<times> number)" where
  "token_scan f normalizedName tokens [] best = Inr best"
| "token_scan f normalizedName tokens (company # rest) best =
     (if \<not> truthy (prop_address company) then token_scan f normalizedName tokens rest best
      else (case candidate_score f normalizedName tokens company of
              Inl x \<Rightarrow> Inl x
            | Inr combinedScore \<Rightarrow>
                token_scan f normalizedName tokens rest (better company combinedScore best)))"

definition token_result :: "facility \<Rightarrow> hubspot_company option \<times> number \<Rightarrow> match_result option" where
  "token_result f best =
     (case fst best of
        None \<Rightarrow> None
      | Some bestMatch \<Rightarrow>
          Some \<lparr>mr_facility = f, mr_company = Some bestMatch, matchType = Token_match,
                confidence = snd best\<rparr>)"

definition scored_results :: "search_response option \<Rightarrow> hubspot_company list" where
  "scored_results tokenResult = (case tokenResult of None \<Rightarrow> [] | Some r \<Rightarrow> results r)"

definition token_tier :: "env \<Rightarrow> facility \<Rightarrow> string \<Rightarrow> string list \<Rightarrow> match_result option" where
  "token_tier e f normalizedName tokens =
     (if tokens \<noteq> []
      then (case token_search e tokens (None, hd tokens) [] of
              Inl x \<Rightarrow> None
            | Inr found \<Rightarrow>
                (case token_scan f normalizedName tokens (scored_results (fst (fst found)))
                        (None, 0) of
                   Inl x \<Rightarrow> None
                 | Inr best \<Rightarrow> token_result f best))
      else None)"

text \<open>\<^verbatim>\<open>searchHubSpotCompany\<close>: the tiers in order, then no match. The first two lines of
  the function are outside every \<^verbatim>\<open>try\<close>.\<close>

definition no_match :: "facility \<Rightarrow> match_result" where
  "no_match f = \<lparr>mr_facility = f, mr_company = None, matchType = None_match, confidence = 0\<rparr>"

definition search_tiers :: "env \<Rightarrow> facility \<Rightarrow> string \<Rightarrow> match_result" where
  "search_tiers e f normalizedName =
     (case exact_tier e f of
        Some r \<Rightarrow> r
      | None \<Rightarrow>
          (case normalized_tier e f normalizedName of
             Some r \<Rightarrow> r
           | None \<Rightarrow>
               (case token_tier e f normalizedName (extractTokens normalizedName) of
                  Some r \<Rightarrow> r
                | None \<Rightarrow> no_match f)))"

definition searchHubSpotCompany :: "env \<Rightarrow> facility \<Rightarrow> exn + match_result" where
  "searchHubSpotCompany e f =
     (case normalizeName (facility_name f) (country f) of
        Inl x \<Rightarrow> Inl x
      | Inr normalizedName \<Rightarrow> Inr (search_tiers e f normalizedName))"

section \<open>Geocoding router\<close>

text \<open>The requests a geocoder makes, in order: the query text (and the key, for HERE).\<close>

datatype geo_call = Kartverket_call string | Here_call string string

text \<open>
  \<^verbatim>\<open>geocodeKartverket\<close>: the query of address and postal code; the first candidate with
  confidence 0.95 or 0.75; with no candidate, the query of address and city and confidence
  0.6. An answer that is not ok ends the first request with no result, as an exception does.
\<close>

definition kartverket_result :: "kartverket_adresse \<Rightarrow> number \<Rightarrow> geocode_result" where
  "kartverket_result best conf =
     \<lparr>res_latitude = rep_lat best, res_longitude = rep_lon best, res_confidence = conf,
      provider = ''kartverket''\<rparr>"

definition geocodeKartverket :: "env \<Rightarrow> facility \<Rightarrow> geocode_result option \<times> geo_call list" where
  "geocodeKartverket e f =
     (let searchQuery = trim (template (address f) @ '' '' @ template (postal_code f)) in
      case kartverket_fetch e searchQuery of
        Fetch_throws \<Rightarrow> (None, [Kartverket_call searchQuery])
      | Http_error status \<Rightarrow> (None, [Kartverket_call searchQuery])
      | Http_ok (Some (best # others)) \<Rightarrow>
          (Some (kartverket_result best
                   (if Some (postnummer best) = postal_code f then 95 / 100 else 75 / 100)),
           [Kartverket_call searchQuery])
      | Http_ok data \<Rightarrow>
          (let fallback = template (address f) @ '' '' @ template (city f) in
           (case kartverket_fetch e fallback of
              Http_ok (Some (best # others)) \<Rightarrow> Some (kartverket_result best (6 / 10))
            | other \<Rightarrow> None,
            [Kartverket_call searchQuery, Kartverket_call fallback])))"

text \<open>
  \<^verbatim>\<open>geocodeHere\<close>: without the key no request is made. \<^verbatim>\<open>queryScore || 0.7\<close> is 0.7
  for a missing score and for the score 0.
\<close>

definition geocodeHere :: "env \<Rightarrow> facility \<Rightarrow> geocode_result option \<times> geo_call list" where
  "geocodeHere e f =
     (if \<not> truthy (HERE_API_KEY e) then (None, [])
      else
        (let addressParts = map the (filter truthy
                [address f, postal_code f, city f, Some (country f)]);
             q = join '', '' addressParts;
             apiKey = the (HERE_API_KEY e) in
         (case here_fetch e q apiKey of
            Http_ok (Some (best # others)) \<Rightarrow>
              Some \<lparr>res_latitude = pos_lat best, res_longitude = pos_lng best,
                    res_confidence = (case queryScore best of
                                        None \<Rightarrow> 7 / 10
                                      | Some s \<Rightarrow> if s = 0 then 7 / 10 else s),
                    provider = ''here''\<rparr>
          | other \<Rightarrow> None,
          [Here_call q apiKey])))"

definition geocodeFacility :: "env \<Rightarrow> facility \<Rightarrow> geocode_result option \<times> geo_call list" where
  "geocodeFacility e f =
     (if country f = ''Norway'' then geocodeKartverket e f else geocodeHere e f)"

section \<open>The geocoding run\<close>

text \<open>
  How a script ends: it completes, or a promise rejection leaves \<^verbatim>\<open>main\<close> (caught
  by \<^verbatim>\<open>main().catch(console.error)\<close>: the run is over), or it calls
  \<^verbatim>\<open>process.exit(1)\<close>. The state is the one reached at that moment.
\<close>

datatype 'a outcome = Completed 'a | Rejected exn 'a | Exit_1

text \<open>The state of the geocoding run: the table, the two counters, the requests made.\<close>

record geocode_run =
  g_db :: facilities
  g_success :: nat
  g_failed :: nat
  g_calls :: "geo_call list"

text \<open>
  The loop of \<^verbatim>\<open>main\<close> over the fetched facilities. No \<^verbatim>\<open>try\<close> surrounds the two
  awaited writes.
\<close>

fun geocode_loop :: "env \<Rightarrow> bool \<Rightarrow> facility list \<Rightarrow> geocode_run \<Rightarrow> geocode_run outcome" where
  "geocode_loop e dryRun [] st = Completed st"
| "geocode_loop e dryRun (f # fs) st =
     (case geocodeFacility e f of
        (Some result, calls) \<Rightarrow>
          (let st1 = st\<lparr>g_calls := g_calls st @ calls\<rparr> in
           if \<not> dryRun then
             (case updateFacilityGeocode e (g_db st1) (facility_id f) result of
                Inl x \<Rightarrow> Rejected x st1
              | Inr db' \<Rightarrow>
                  geocode_loop e dryRun fs (st1\<lparr>g_db := db', g_success := g_success st1 + 1\<rparr>))
           else geocode_loop e dryRun fs (st1\<lparr>g_success := g_success st1 + 1\<rparr>))
      | (None, calls) \<Rightarrow>
          (let st1 = st\<lparr>g_calls := g_calls st @ calls\<rparr> in
           if \<not> dryRun then
             (case markFacilityFailed e (g_db st1) (facility_id f) of
                Inl x \<Rightarrow> Rejected x st1
              | Inr db' \<Rightarrow>
                  geocode_loop e dryRun fs (st1\<lparr>g_db := db', g_failed := g_failed st1 + 1\<rparr>))
           else geocode_loop e dryRun fs (st1\<lparr>g_failed := g_failed st1 + 1\<rparr>)))"

text \<open>
  The options of the geocoding script as \<^verbatim>\<open>main\<close> parses them: the country filter,
  the limit (\<open>None\<close> for a limit that is not a number, sent as \<^verbatim>\<open>null\<close>), the dry-run
  flag. A missing \<^verbatim>\<open>HERE_API_KEY\<close> only prints a warning.
\<close>

record geocode_options =
  countryFilter :: "string option"
  geo_limit :: "int option"
  geo_dryRun :: bool

definition geocode_main :: "env \<Rightarrow> geocode_options \<Rightarrow> facilities \<Rightarrow> geocode_run outcome" where
  "geocode_main e opts db =
     (let st = \<lparr>g_db = db, g_success = 0, g_failed = 0, g_calls = []\<rparr> in
      case rpc e Get_facilities_for_geocoding
             (asset_map_get_facilities_for_geocoding db (or_null (countryFilter opts))
                (geo_limit opts)) of
        Inl x \<Rightarrow> Rejected x st
      | Inr facilities \<Rightarrow>
          if facilities = [] then Completed st
          else geocode_loop e (geo_dryRun opts) facilities st)"

section \<open>The matching run\<close>

text \<open>
  The options of \<^verbatim>\<open>sync-hubspot.ts\<close> (\<open>limit = None\<close> for a missing limit or one that is
  not a number) and the statistics. The two tables of counters are association lists;
  \<^verbatim>\<open>byMatchType\<close> starts with its five keys at 0.
\<close>

record sync_options =
  dryRun :: bool
  limit :: "int option"
  country_option :: "string option"
  verbose :: bool

record sync_run =
  s_db :: facilities
  processed :: nat
  matched :: nat
  updated :: nat
  failed :: nat
  byMatchType :: "(match_type \<times> nat) list"
  byCountry :: "(string \<times> nat \<times> nat) list"

definition bump_match_type :: "match_type \<Rightarrow> (match_type \<times> nat) list \<Rightarrow> (match_type \<times> nat) list" where
  "bump_match_type t tab = map (\<lambda>kv. if fst kv = t then (fst kv, snd kv + 1) else kv) tab"

text \<open>
  \<^verbatim>\<open>byCountry\<close> is an object literal as well: for a country that is the name of a
  property of \<^verbatim>\<open>Object.prototype\<close> no entry is made and the increments change no entry.
  Otherwise the entry of the country (matched, total) is made at its first facility.
\<close>

definition bump_total :: "string \<Rightarrow> (string \<times> nat \<times> nat) list \<Rightarrow> (string \<times> nat \<times> nat) list" where
  "bump_total c tab =
     (if c \<in> set object_prototype_keys then tab
      else if c \<in> set (map fst tab)
      then map (\<lambda>kv. if fst kv = c then (c, fst (snd kv), snd (snd kv) + 1) else kv) tab
      else tab @ [(c, 0, 1)])"

definition bump_matched :: "string \<Rightarrow> (string \<times> nat \<times> nat) list \<Rightarrow> (string \<times> nat \<times> nat) list" where
  "bump_matched c tab =
     (if c \<in> set object_prototype_keys then tab
      else map (\<lambda>kv. if fst kv = c then (c, fst (snd kv) + 1, snd (snd kv)) else kv) tab)"

text \<open>
  The body of the loop over a batch: the counters, then inside \<^verbatim>\<open>try\<close> the search and,
  for a match in a run that is not dry, the update; \<^verbatim>\<open>catch\<close> counts a failure and the
  loop goes on.
\<close>

definition record_match :: "env \<Rightarrow> sync_options \<Rightarrow> facility \<Rightarrow> hubspot_company \<Rightarrow> sync_run \<Rightarrow> sync_run" where
  "record_match e opts f company st =
     (let st1 = st\<lparr>matched := matched st + 1,
                    byCountry := bump_matched (country f) (byCountry st)\<rparr>
      in if \<not> dryRun opts
         then (case updateFacility e (s_db st1) f company of
                 Inl x \<Rightarrow> st1\<lparr>failed := failed st1 + 1\<rparr>
               | Inr db' \<Rightarrow> st1\<lparr>s_db := db', updated := updated st1 + 1\<rparr>)
         else st1)"

definition record_result :: "env \<Rightarrow> sync_options \<Rightarrow> facility \<Rightarrow> match_result \<Rightarrow> sync_run \<Rightarrow> sync_run" where
  "record_result e opts f result st =
     (let st1 = st\<lparr>byMatchType := bump_match_type (matchType result) (byMatchType st)\<rparr>
      in case mr_company result of
           None \<Rightarrow> st1
         | Some company \<Rightarrow> record_match e opts f company st1)"

definition process_facility :: "env \<Rightarrow> sync_options \<Rightarrow> facility \<Rightarrow> sync_run \<Rightarrow> sync_run" where
  "process_facility e opts f st =
     (let st1 = st\<lparr>processed := processed st + 1,
                    byCountry := bump_total (country f) (byCountry st)\<rparr>
      in case searchHubSpotCompany e f of
           Inl x \<Rightarrow> st1\<lparr>failed := failed st1 + 1\<rparr>
         | Inr result \<Rightarrow> record_result e opts f result st1)"

text \<open>The loop over the batches of \<^verbatim>\<open>BATCH_SIZE = 50\<close> facilities, from index \<open>i\<close>.\<close>

function sync_batches :: "env \<Rightarrow> sync_options \<Rightarrow> facility list \<Rightarrow> nat \<Rightarrow> sync_run \<Rightarrow> sync_run" where
  "sync_batches e opts facilities i st =
     (if i < length facilities
      then sync_batches e opts facilities (i + 50)
             (fold (process_facility e opts) (take 50 (drop i facilities)) st)
      else st)"
  by pat_completeness auto
termination
  by (relation "measure (\<lambda>(e, opts, facilities, i, st). length facilities - i)") auto

declare sync_batches.simps [simp del]

text \<open>
  \<^verbatim>\<open>syncHubSpotAddresses\<close>: the check of the environment, the fetch of the facilities
  (\<^verbatim>\<open>options.limit || 5000\<close>, \<^verbatim>\<open>options.country || null\<close>), the batches.
\<close>

definition limit_or_5000 :: "int option \<Rightarrow> int" where
  "limit_or_5000 l = (case l of None \<Rightarrow> 5000 | Some n \<Rightarrow> if n = 0 then 5000 else n)"

definition sync_start :: "facilities \<Rightarrow> sync_run" where
  "sync_start db =
     \<lparr>s_db = db, processed = 0, matched = 0, updated = 0, failed = 0,
      byMatchType = [(Exact_match, 0), (Normalized_match, 0), (Token_match, 0),
                     (Fuzzy_match, 0), (None_match, 0)],
      byCountry = []\<rparr>"

definition syncHubSpotAddresses :: "env \<Rightarrow> sync_options \<Rightarrow> facilities \<Rightarrow> sync_run outcome" where
  "syncHubSpotAddresses e opts db =
     (if \<not> truthy (HUBSPOT_API_KEY e) \<or> \<not> truthy (SUPABASE_URL e) \<or> \<not> truthy (SUPABASE_KEY e)
      then Exit_1
      else (case rpc e Get_facilities_for_sync
                   (asset_map_get_facilities_for_sync db (Some (limit_or_5000 (limit opts)))
                      (or_null (country_option opts))) of
              Inl x \<Rightarrow> Rejected x (sync_start db)
            | Inr facilities \<Rightarrow>
                if facilities = [] then Completed (sync_start db)
                else Completed (sync_batches e opts facilities 0 (sync_start db))))"

section \<open>Example inputs\<close>

text \<open>An environment with all credentials but the commercial geocoder's, whose services find
  nothing and whose database answers every call.\<close>

definition ex_env :: env where
  "ex_env = \<lparr>HUBSPOT_API_KEY = Some ''key'', SUPABASE_URL = Some ''https://db'',
     SUPABASE_KEY = Some ''svc'', HERE_API_KEY = None,
     doSearch = (\<lambda>r. Inr \<lparr>total = Some 0, results = []\<rparr>),
     kartverket_fetch = (\<lambda>q. Http_ok (Some [])),
     here_fetch = (\<lambda>q k. Http_ok (Some [])),
     rpc_fails = (\<lambda>c. False), clock = 7\<rparr>"

text \<open>A facility located by hand.\<close>

definition ex_row :: facility where
  "ex_row = \<lparr>facility_id = ''f1'', hubspot_id = None, facility_name = ''Solsiden'',
     address = Some ''Storgata 5'', city = Some ''Oslo'', postal_code = Some ''0150'',
     country = ''Norway'', latitude = Some (599 / 10), longitude = Some (107 / 10),
     geocode_status = Manual, geocode_confidence = Some 1, charger_count = 4,
     created_at = 1, updated_at = 2\<rparr>"

text \<open>A Norwegian facility waiting for coordinates, a registry candidate (postal code 0150),
  and registries that answer the first query, the first query of a facility with postal code
  0151, and only the second query.\<close>

definition kv_row :: facility where
  "kv_row = ex_row\<lparr>address := Some ''Kongens gate 1'', latitude := None, longitude := None,
     geocode_status := Pending, geocode_confidence := None\<rparr>"





text \<open>A second Norwegian facility and a Swedish one waiting for coordinates; the options of a
  geocoding run that writes; a database whose geocode update for facility \<open>f1\<close> fails.\<close>

definition kv_row2 :: facility where
  "kv_row2 = kv_row\<lparr>facility_id := ''f2'', facility_name := ''Tveita'',
     address := Some ''Tvetenveien 1''\<rparr>"


definition geo_opts :: geocode_options where
  "geo_opts = \<lparr>countryFilter = None, geo_limit = Some 100, geo_dryRun = False\<rparr>"

definition write_fail_env :: env where
  "write_fail_env = ex_env\<lparr>rpc_fails := (\<lambda>c. c = Update_facility_geocode ''f1'')\<rparr>"

text \<open>Facilities waiting for an address, CRM companies, the options of a matching run that
  writes, and three CRMs: one whose answers to both tokens of \<open>tok_row\<close> have a total of 100
  or more, one that answers the exact name of \<open>dup_row\<close> with two companies of which the
  second has an address, one that answers the exact name with a company that has one.\<close>

definition tok_row :: facility where
  "tok_row = \<lparr>facility_id = ''f4'', hubspot_id = None, facility_name = ''Solsiden Park'',
     address = None, city = None, postal_code = None, country = ''Norway'', latitude = None,
     longitude = None, geocode_status = Pending, geocode_confidence = None, charger_count = 2,
     created_at = 1, updated_at = 2\<rparr>"


definition crm_company :: "string \<Rightarrow> string \<Rightarrow> string option \<Rightarrow> hubspot_company" where
  "crm_company i n a = \<lparr>company_id = i, prop_name = Some n, prop_address = a,
     prop_city = Some ''Oslo'', prop_zip = None, prop_country = None\<rparr>"

definition sync_opts :: sync_options where
  "sync_opts = \<lparr>dryRun = False, limit = None, country_option = None, verbose = False\<rparr>"

definition tok_crm :: "search_request \<Rightarrow> exn + search_response" where
  "tok_crm r =
     (if operator r = ContainsToken \<and> search_value r = ''solsiden''
      then Inr \<lparr>total = Some 150, results = [crm_company ''1'' ''Solsiden Vest'' None]\<rparr>
      else if operator r = ContainsToken \<and> search_value r = ''park''
      then Inr \<lparr>total = Some 120,
                results = [crm_company ''2'' ''Solsiden Park Sameie'' (Some ''Storgata 5'')]\<rparr>
      else Inr \<lparr>total = Some 0, results = []\<rparr>)"

definition tok_env :: env where
  "tok_env = ex_env\<lparr>doSearch := tok_crm\<rparr>"





section \<open>Properties of the persistence gateway\<close>

lemma decimal_column_None [simp]: "decimal_column p s None = Inr None"
  by (simp add: decimal_column_def)

lemma coalesce_None [simp]: "coalesce None b = b"
  by (simp add: coalesce_def)

lemma list_ex_id_nth:
  "i < length db \<Longrightarrow> facility_id (db ! i) = fid \<Longrightarrow> list_ex (\<lambda>f. facility_id f = fid) db"
  by (auto simp: list_ex_iff)

text \<open>
  C10. The update of the matching stage (\<^verbatim>\<open>updateFacility\<close>, through
  \<^verbatim>\<open>asset_map_update_facility_from_hubspot\<close>) changes nothing but the CRM reference,
  address, city, postal code and update time of the rows of the facility: whenever the call
  succeeds, the table keeps its length, every row of another facility is the row it was, and
  the latitudes, longitudes, geocode statuses and geocode confidences of the table are the
  ones before the call, as is every row once those five columns are blanked out. (A call that
  fails leaves no new table.)
\<close>

theorem updateFacility_frame:
  assumes "updateFacility e db f company = Inr db'"
  shows "length db' = length db
    \<and> (\<forall>i < length db. facility_id (db ! i) \<noteq> facility_id f \<longrightarrow> db' ! i = db ! i)
    \<and> map latitude db' = map latitude db \<and> map longitude db' = map longitude db
    \<and> map geocode_status db' = map geocode_status db
    \<and> map geocode_confidence db' = map geocode_confidence db
    \<and> map (\<lambda>r. r\<lparr>hubspot_id := None, address := None, city := None, postal_code := None,
                 updated_at := 0\<rparr>) db'
      = map (\<lambda>r. r\<lparr>hubspot_id := None, address := None, city := None, postal_code := None,
                   updated_at := 0\<rparr>) db"
  using assms
  by (auto simp: updateFacility_def rpc_def asset_map_update_facility_from_hubspot_def
      split: if_splits sum.splits)

theorem updateFacility_frame_witness:
  "updateFacility ex_env [ex_row, kv_row2] ex_row
      \<lparr>company_id = ''901'', prop_name = Some ''Solsiden'', prop_address = Some ''Storgata 7'',
       prop_city = Some ''Oslo'', prop_zip = None, prop_country = None\<rparr>
     = Inr [ex_row\<lparr>hubspot_id := Some ''901'', address := Some ''Storgata 7'',
                  city := Some ''Oslo'', postal_code := None, updated_at := 7\<rparr>, kv_row2]
   \<and> facility_id kv_row2 \<noteq> facility_id ex_row
   \<and> [ex_row\<lparr>hubspot_id := Some ''901'', address := Some ''Storgata 7'',
              city := Some ''Oslo'', postal_code := None, updated_at := 7\<rparr>, kv_row2] ! 1
     = [ex_row, kv_row2] ! 1
   \<and> map latitude [ex_row\<lparr>hubspot_id := Some ''901'', address := Some ''Storgata 7'',
                  city := Some ''Oslo'', postal_code := None, updated_at := 7\<rparr>, kv_row2]
     = map latitude [ex_row, kv_row2]"
  using updateFacility_frame [of ex_env "[ex_row, kv_row2]" ex_row
      "\<lparr>company_id = ''901'', prop_name = Some ''Solsiden'', prop_address = Some ''Storgata 7'',
       prop_city = Some ''Oslo'', prop_zip = None, prop_country = None\<rparr>"
      "[ex_row\<lparr>hubspot_id := Some ''901'', address := Some ''Storgata 7'',
                  city := Some ''Oslo'', postal_code := None, updated_at := 7\<rparr>, kv_row2]"]
  by (simp add: updateFacility_def rpc_def asset_map_update_facility_from_hubspot_def
      ex_env_def ex_row_def kv_row2_def kv_row_def truthy_def or_null_def)

text \<open>
  C3, as the claim states it, fails: the failure update of \<^verbatim>\<open>markFacilityFailed\<close>
  passes null coordinates, and \<^verbatim>\<open>COALESCE(p_latitude, latitude)\<close> then keeps the
  stored ones. On a row that has coordinates the status becomes failed and the coordinates
  stay.
\<close>

theorem markFacilityFailed_keeps_coordinates:
  "isl (markFacilityFailed ex_env [ex_row] ''f1'') = False
   \<and> map geocode_status (projr (markFacilityFailed ex_env [ex_row] ''f1'')) = [Failed]
   \<and> map latitude (projr (markFacilityFailed ex_env [ex_row] ''f1'')) = [Some (599 / 10)]
   \<and> map longitude (projr (markFacilityFailed ex_env [ex_row] ''f1'')) = [Some (107 / 10)]"
  by (simp add: markFacilityFailed_def rpc_def asset_map_update_facility_geocode_def
      ex_env_def ex_row_def truthy_def)

text \<open>
  C3, amended. When the failure update of the geocoding stage succeeds, every row with the
  facility's id ends with geocode status failed and no confidence (it is not left pending),
  and with the latitude and longitude it had before: null coordinates stay null, stored
  coordinates stay stored.
\<close>

theorem markFacilityFailed_row:
  assumes "markFacilityFailed e db fid = Inr db'" and "i < length db"
    and "facility_id (db ! i) = fid"
  shows "length db' = length db \<and> geocode_status (db' ! i) = Failed
    \<and> geocode_confidence (db' ! i) = None
    \<and> latitude (db' ! i) = latitude (db ! i) \<and> longitude (db' ! i) = longitude (db ! i)"
  using assms list_ex_id_nth [OF assms(2,3)]
  by (auto simp: markFacilityFailed_def rpc_def asset_map_update_facility_geocode_def
      split: if_splits sum.splits)

theorem markFacilityFailed_row_witness:
  "markFacilityFailed ex_env [ex_row\<lparr>latitude := None, longitude := None\<rparr>] ''f1''
     = Inr [ex_row\<lparr>latitude := None, longitude := None, geocode_status := Failed,
                  geocode_confidence := None, updated_at := 7\<rparr>]
   \<and> geocode_status ([ex_row\<lparr>latitude := None, longitude := None, geocode_status := Failed,
                  geocode_confidence := None, updated_at := 7\<rparr>] ! 0) = Failed"
  using markFacilityFailed_row [of ex_env "[ex_row\<lparr>latitude := None, longitude := None\<rparr>]"
      "''f1''" "[ex_row\<lparr>latitude := None, longitude := None, geocode_status := Failed,
                  geocode_confidence := None, updated_at := 7\<rparr>]" 0]
  by (simp add: markFacilityFailed_def rpc_def asset_map_update_facility_geocode_def
      ex_env_def ex_row_def truthy_def)

section \<open>Properties of the similarity scorer\<close>

lemma edit_dist_sym: "edit_dist s l i j = edit_dist l s j i"
proof (induction s l i j rule: edit_dist.induct)
  case (1 s l j)
  then show ?case by (cases j) simp_all
next
  case (2 s l i)
  then show ?case by simp
next
  case (3 s l i j)
  then show ?case by (auto simp: min.commute min.left_commute min.assoc)
qed

lemma edit_dist_refl: "edit_dist a a i i = 0"
  by (induction i) simp_all

lemma row0: "fold (cost_step s l 0) [0..<k] ([], v) = ([0..<k], v)"
  by (induction k) (simp_all add: cost_step_def array_set_def)

lemma array_set_mid:
  "length xs = k \<Longrightarrow> array_set (xs @ y # ys) k v = xs @ v # ys"
  by (simp add: array_set_def list_update_append)

lemma row_step:
  assumes "i < length s" and "k \<le> length l"
  shows "fold (cost_step s l (Suc i)) [0..<Suc k] (map (edit_dist s l i) [0..<Suc (length l)], Suc i)
     = (map (edit_dist s l (Suc i)) [0..<k] @ map (edit_dist s l i) [k..<Suc (length l)],
        edit_dist s l (Suc i) k)"
  using assms(2)
proof (induction k)
  case 0
  show ?case by (simp add: cost_step_def)
next
  case (Suc k)
  then have k: "k < length l" by simp
  let ?pre = "map (edit_dist s l (Suc i)) [0..<k]"
  have split: "map (edit_dist s l i) [k..<Suc (length l)]
      = edit_dist s l i k # edit_dist s l i (Suc k) # map (edit_dist s l i) [Suc (Suc k)..<Suc (length l)]"
  proof -
    have "[k..<Suc (length l)] = k # [Suc k..<Suc (length l)]"
      using k by (intro upt_conv_Cons) simp
    moreover have "[Suc k..<Suc (length l)] = Suc k # [Suc (Suc k)..<Suc (length l)]"
      using k by (intro upt_conv_Cons) simp
    ultimately show ?thesis by (simp del: upt_Suc)
  qed
  have len: "length ?pre = k" by simp
  have a: "(?pre @ map (edit_dist s l i) [k..<Suc (length l)]) ! k = edit_dist s l i k"
    unfolding split using len by (simp add: nth_append)
  have b: "(?pre @ map (edit_dist s l i) [k..<Suc (length l)]) ! Suc k = edit_dist s l i (Suc k)"
    unfolding split using len by (simp add: nth_append)
  have c: "array_set (?pre @ map (edit_dist s l i) [k..<Suc (length l)]) k (edit_dist s l (Suc i) k)
      = map (edit_dist s l (Suc i)) [0..<Suc k] @ map (edit_dist s l i) [Suc k..<Suc (length l)]"
  proof -
    have "[Suc k..<Suc (length l)] = Suc k # [Suc (Suc k)..<Suc (length l)]"
      using k by (intro upt_conv_Cons) simp
    moreover have "map (edit_dist s l (Suc i)) [0..<Suc k]
        = ?pre @ [edit_dist s l (Suc i) k]"
      by simp
    ultimately show ?thesis
      unfolding split using array_set_mid [OF len] by (simp del: upt_Suc)
  qed
  have ch: "(charAt s i \<noteq> charAt l k) = (s ! i \<noteq> l ! k)"
    using assms(1) k by (simp add: charAt_def)
  have "fold (cost_step s l (Suc i)) [0..<Suc (Suc k)]
          (map (edit_dist s l i) [0..<Suc (length l)], Suc i)
      = cost_step s l (Suc i) (Suc k)
          (?pre @ map (edit_dist s l i) [k..<Suc (length l)], edit_dist s l (Suc i) k)"
    using Suc by simp
  also have "\<dots> = (map (edit_dist s l (Suc i)) [0..<Suc k]
                      @ map (edit_dist s l i) [Suc k..<Suc (length l)],
                    edit_dist s l (Suc i) (Suc k))"
    unfolding cost_step_def using a b c ch by (simp add: Let_def)
  finally show ?case .
qed

lemma cost_row_Suc:
  assumes "i < length s"
  shows "cost_row s l (Suc i) (map (edit_dist s l i) [0..<Suc (length l)])
     = map (edit_dist s l (Suc i)) [0..<Suc (length l)]"
proof -
  have "array_set (map (edit_dist s l (Suc i)) [0..<length l] @ [edit_dist s l i (length l)])
          (length l) (edit_dist s l (Suc i) (length l))
        = map (edit_dist s l (Suc i)) [0..<length l] @ [edit_dist s l (Suc i) (length l)]"
    using array_set_mid [of "map (edit_dist s l (Suc i)) [0..<length l]" "length l"] by simp
  then show ?thesis
    unfolding cost_row_def using row_step [OF assms, of "length l" l] by simp
qed

lemma edit_dist_row0: "map (edit_dist s l 0) xs = xs"
  by (induction xs) simp_all

lemma cost_row_0: "cost_row s l 0 [] = map (edit_dist s l 0) [0..<Suc (length l)]"
proof -
  have "fold (cost_step s l 0) [0..<Suc (length l)] ([], 0) = ([0..<Suc (length l)], 0)"
    by (rule row0)
  then have "cost_row s l 0 [] = [0..<Suc (length l)]"
    by (simp add: cost_row_def del: upt_Suc)
  then show ?thesis by (simp only: edit_dist_row0)
qed

lemma cost_rows_prefix:
  "m \<le> length s \<Longrightarrow>
   fold (cost_row s l) [0..<Suc m] [] = map (edit_dist s l m) [0..<Suc (length l)]"
proof (induction m)
  case 0
  have "[0..<Suc 0] = [0]" by simp
  then show ?case by (simp add: cost_row_0 edit_dist_row0 del: upt_Suc)
next
  case (Suc m)
  then have "fold (cost_row s l) [0..<Suc (Suc m)] []
      = cost_row s l (Suc m) (map (edit_dist s l m) [0..<Suc (length l)])"
    by simp
  also have "\<dots> = map (edit_dist s l (Suc m)) [0..<Suc (length l)]"
    using Suc.prems by (intro cost_row_Suc) simp
  finally show ?case .
qed

lemma cost_rows_last: "cost_rows s l ! length l = edit_dist s l (length s) (length l)"
proof -
  have "cost_rows s l = map (edit_dist s l (length s)) [0..<Suc (length l)]"
    unfolding cost_rows_def by (rule cost_rows_prefix) simp
  then show ?thesis by (simp add: nth_append del: upt_Suc)
qed

text \<open>
  C9. For all strings \<open>a\<close> and \<open>b\<close> the similarity is symmetric, and the similarity of a
  string with itself is 1, the empty string included.
\<close>

theorem similarity_symmetric_reflexive:
  "similarity a b = similarity b a \<and> similarity a a = 1"
proof
  show "similarity a b = similarity b a"
  proof (cases "length a = length b")
    case True
    have "cost_rows a b ! length b = edit_dist a b (length a) (length b)"
      by (rule cost_rows_last)
    also have "\<dots> = edit_dist b a (length b) (length a)"
      by (rule edit_dist_sym)
    also have "\<dots> = cost_rows b a ! length a"
      by (rule cost_rows_last [symmetric])
    finally have eq: "cost_rows a b ! length b = cost_rows b a ! length a" .
    show ?thesis
    proof (cases "b = []")
      case True
      with \<open>length a = length b\<close> show ?thesis by simp
    next
      case False
      with \<open>length a = length b\<close> have "a \<noteq> []" by auto
      with False eq \<open>length a = length b\<close> show ?thesis
        by (simp add: similarity_def Let_def)
    qed
  next
    case False
    then show ?thesis by (auto simp: similarity_def Let_def)
  qed
  show "similarity a a = 1"
    by (simp add: similarity_def cost_rows_last edit_dist_refl Let_def)
qed

section \<open>Properties of the geocoding router\<close>



section \<open>Properties of the runs: credentials and failures\<close>




lemma processed_record_match [simp]:
  "processed (record_match e opts f company st) = processed st"
  by (simp add: record_match_def Let_def split: sum.splits)

lemma processed_process_facility [simp]:
  "processed (process_facility e opts f st) = Suc (processed st)"
  by (simp add: process_facility_def record_result_def Let_def split: sum.splits option.splits)

lemma processed_fold:
  "processed (fold (process_facility e opts) fs st) = processed st + length fs"
  by (induction fs arbitrary: st) simp_all

text \<open>
  The matching run never stops at a record: whatever the search or the write of a facility
  throws, all fetched facilities are processed.
\<close>

lemma sync_batches_processes_all:
  "processed (sync_batches e opts fs i st) = processed st + (length fs - i)"
proof (induction e opts fs i st rule: sync_batches.induct)
  case (1 e opts facilities i st)
  show ?case
  proof (cases "i < length facilities")
    case True
    then have "processed (sync_batches e opts facilities i st)
        = processed (sync_batches e opts facilities (i + 50)
            (fold (process_facility e opts) (take 50 (drop i facilities)) st))"
      by (subst sync_batches.simps) simp
    also have "\<dots> = processed (fold (process_facility e opts) (take 50 (drop i facilities)) st)
        + (length facilities - (i + 50))"
      using True by (rule "1.IH")
    also have "\<dots> = processed st + (length facilities - i)"
      using True by (simp add: processed_fold min_def)
    finally show ?thesis .
  next
    case False
    then show ?thesis by (subst sync_batches.simps) simp
  qed
qed

text \<open>
  C4 at its failing input (the matching run satisfies the claim, see above; the geocoding run
  does not): a geocoding run that writes, two Norwegian facilities the registry
  does not find, and a database whose update for the first one fails. The rejection of the
  awaited write leaves \<^verbatim>\<open>main\<close>: the run ends there, the counter of failures is still 0
  and the second facility is never looked up (the two requests made are those of the first).
\<close>

theorem geocode_main_write_failure_aborts:
  "geocode_main write_fail_env geo_opts [kv_row, kv_row2]
     = Rejected (RpcError RpcFailed)
         \<lparr>g_db = [kv_row, kv_row2], g_success = 0, g_failed = 0,
          g_calls = [Kartverket_call ''Kongens gate 1 0150'',
                     Kartverket_call ''Kongens gate 1 Oslo'']\<rparr>"
  by code_simp

section \<open>Properties of the candidate matcher\<close>






text \<open>
  C6 at its failing input: the facility \<open>Solsiden Park\<close> has the tokens \<open>solsiden\<close> and
  \<open>park\<close>, and the CRM answers both with a total of 100 or more. Both tokens are searched
  for, in order, and the answer kept and scored is the one of the first token, not of the last
  one searched for: the company of the last answer would score 1, and the matcher ends with no
  match.
\<close>

theorem token_tier_keeps_first_answer:
  "extractTokens ''Solsiden Park'' = [''solsiden'', ''park'']
   \<and> token_search tok_env [''solsiden'', ''park''] (None, ''solsiden'') []
     = Inr ((Some \<lparr>total = Some 150, results = [crm_company ''1'' ''Solsiden Vest'' None]\<rparr>,
             ''solsiden''),
            [''solsiden'', ''park''])
   \<and> doSearch tok_env \<lparr>operator = ContainsToken, search_value = ''park'', search_limit = 50\<rparr>
     = Inr \<lparr>total = Some 120,
            results = [crm_company ''2'' ''Solsiden Park Sameie'' (Some ''Storgata 5'')]\<rparr>
   \<and> candidate_score tok_row ''Solsiden Park'' [''solsiden'', ''park'']
        (crm_company ''2'' ''Solsiden Park Sameie'' (Some ''Storgata 5'')) = Inr 1
   \<and> searchHubSpotCompany tok_env tok_row = Inr (no_match tok_row)"
  by code_simp

section \<open>Properties of the name normalizer\<close>

lemma rev_split: "y = rev (dropWhile P (rev y)) @ rev (takeWhile P (rev y))"
proof -
  have "rev (takeWhile P (rev y) @ dropWhile P (rev y))
      = rev (dropWhile P (rev y)) @ rev (takeWhile P (rev y))"
    by (rule rev_append)
  then show ?thesis by (simp only: takeWhile_dropWhile_id rev_rev_ident)
qed

lemma trim_ends:
  "trim x = [] \<or> (\<not> is_space (hd (trim x)) \<and> \<not> is_space (last (trim x)))"
proof (cases "trim x = []")
  case True
  then show ?thesis by simp
next
  case False
  let ?y = "dropWhile is_space x"
  let ?z = "dropWhile is_space (rev ?y)"
  have t: "trim x = rev ?z" by (simp add: trim_def)
  with False have z: "?z \<noteq> []" by simp
  then have "\<not> is_space (hd ?z)" by (rule hd_dropWhile)
  then have l: "\<not> is_space (last (trim x))" using z by (simp add: t last_rev)
  have y: "?y = trim x @ rev (takeWhile is_space (rev ?y))"
    unfolding t by (rule rev_split)
  with False have "?y \<noteq> []" by (metis append_is_Nil_conv)
  then have "\<not> is_space (hd ?y)" by (rule hd_dropWhile)
  moreover have "hd ?y = hd (trim x)" using y False by (metis hd_append2)
  ultimately show ?thesis using l by simp
qed

lemma trim_fixed:
  assumes "t = [] \<or> (\<not> is_space (hd t) \<and> \<not> is_space (last t))"
  shows "trim t = t"
proof (cases "t = []")
  case True
  then show ?thesis by (simp add: trim_def)
next
  case False
  with assms have h: "\<not> is_space (hd t)" and l: "\<not> is_space (last t)" by auto
  have 1: "dropWhile is_space t = t" using False h by (cases t) simp_all
  have "rev t \<noteq> []" using False by simp
  then obtain a r where r: "rev t = a # r" by (cases "rev t") auto
  have "hd (rev t) = last t" using False by (simp add: hd_rev)
  with r l have "\<not> is_space a" by simp
  then have 2: "dropWhile is_space (rev t) = rev t" by (simp add: r)
  show ?thesis by (simp add: trim_def 1 2)
qed

lemma trim_trim: "trim (trim x) = trim x"
  by (rule trim_fixed) (rule trim_ends)

lemma trim_prefix_suffix: "\<exists>a b. dropWhile is_space x = trim x @ b \<and> x = a @ dropWhile is_space x"
proof -
  let ?y = "dropWhile is_space x"
  have "?y = trim x @ rev (takeWhile is_space (rev ?y))"
    unfolding trim_def by (rule rev_split)
  moreover have "x = takeWhile is_space x @ ?y" by simp
  ultimately show ?thesis by blast
qed

lemma set_trim: "set (trim x) \<subseteq> set x"
proof -
  obtain a b where "dropWhile is_space x = trim x @ b" and "x = a @ dropWhile is_space x"
    using trim_prefix_suffix by blast
  then have "x = a @ trim x @ b" by simp
  then have "set x = set a \<union> set (trim x) \<union> set b" by (metis set_append sup_assoc)
  then show ?thesis by blast
qed

lemma set_collapse_spaces: "set (collapse_spaces b xs) \<subseteq> insert (CHR '' '') (set xs)"
  by (induction xs arbitrary: b) auto

lemma squeezed_collapse_spaces: "squeezed b (collapse_spaces b xs)"
  by (induction xs arbitrary: b) (auto simp: is_space_def)

lemma collapse_spaces_squeezed: "squeezed b xs \<Longrightarrow> collapse_spaces b xs = xs"
  by (induction xs arbitrary: b) (auto split: if_splits)

lemma squeezed_dropWhile: "squeezed b xs \<Longrightarrow> squeezed b' (dropWhile is_space xs)"
  by (induction xs arbitrary: b) (auto split: if_splits)

lemma squeezed_prefix: "squeezed b (xs @ ys) \<Longrightarrow> squeezed b xs"
  by (induction xs arbitrary: b) (auto split: if_splits)

lemma squeezed_trim:
  assumes "squeezed b x"
  shows "squeezed False (trim x)"
proof -
  obtain a c where "dropWhile is_space x = trim x @ c"
    using trim_prefix_suffix by blast
  moreover have "squeezed False (dropWhile is_space x)"
    using assms by (rule squeezed_dropWhile)
  ultimately show ?thesis using squeezed_prefix by metis
qed

lemma fold_fixed: "(\<And>x. x \<in> set xs \<Longrightarrow> f x s = s) \<Longrightarrow> fold f xs s = s"
  by (induction xs) simp_all

lemma replace_to_end_fixed:
  assumes "\<not> matches_somewhere L s"
  shows "replace_to_end L s = s"
proof -
  have "find (\<lambda>p. L (drop p s)) [0..<Suc (length s)] = None"
    using assms by (simp add: matches_somewhere_def find_None_iff list_ex_iff del: upt_Suc)
  then show ?thesis by (simp add: replace_to_end_def del: upt_Suc)
qed

lemma remove_prefix_fixed: "\<not> prefix_matches p s \<Longrightarrow> remove_prefix p s = s"
  by (simp add: remove_prefix_def)

lemma normalize_with_clean:
  "trim (normalize_with p s) = normalize_with p s
   \<and> remove_punctuation (normalize_with p s) = normalize_with p s
   \<and> collapse_spaces False (normalize_with p s) = normalize_with p s"
proof -
  define x where "x = fold replace_to_end noise_patterns
      (fold remove_suffix (snd p) (fold remove_prefix (fst p) (trim s)))"
  have n: "normalize_with p s = trim (collapse_spaces False (remove_punctuation x))"
    by (simp add: normalize_with_def x_def)
  have 1: "trim (normalize_with p s) = normalize_with p s"
    unfolding n by (rule trim_trim)
  have "set (normalize_with p s) \<subseteq> insert (CHR '' '') (set (remove_punctuation x))"
    unfolding n using set_trim set_collapse_spaces by blast
  moreover have "\<not> is_punctuation (CHR '' '')" by (simp add: is_punctuation_def)
  ultimately have "\<forall>c \<in> set (normalize_with p s). \<not> is_punctuation c"
    by (auto simp: remove_punctuation_def)
  then have 2: "remove_punctuation (normalize_with p s) = normalize_with p s"
    by (simp add: remove_punctuation_def)
  have "squeezed False (normalize_with p s)"
    unfolding n using squeezed_collapse_spaces by (rule squeezed_trim)
  then have 3: "collapse_spaces False (normalize_with p s) = normalize_with p s"
    by (rule collapse_spaces_squeezed)
  from 1 2 3 show ?thesis by simp
qed

text \<open>
  C2, as the claim states it, fails: every prefix and suffix is removed once, in the order of
  the table, so a name can leave the normalizer with an affix that a second pass removes. The
  name of the specification's own scenario is such a name.
\<close>

theorem normalizeName_not_idempotent:
  "normalizeName ''Sameiet Sameiet Foo'' ''Norway'' = Inr ''Sameiet Foo''
   \<and> normalizeName ''Sameiet Foo'' ''Norway'' = Inr ''Foo''
   \<and> normalizeName ''Alvim Borettslag - all'' ''Norway'' = Inr ''Alvim Borettslag''
   \<and> normalizeName ''Alvim Borettslag'' ''Norway'' = Inr ''Alvim''"
  by code_simp

text \<open>
  C2, amended. For every name \<open>s\<close> and country \<open>c\<close>: when the normalized name is free of
  affixes (no prefix, suffix or noise pattern of the country matches in it any more),
  normalizing it again changes nothing. The last three steps (punctuation, white space, trim)
  are idempotent without condition.
\<close>

theorem normalizeName_fixed_point:
  assumes "normalizeName s c = Inr n" and "affix_free c n"
  shows "normalizeName n c = Inr n"
proof -
  from assms(2) obtain p where p: "housing_patterns c = Some p"
    by (auto simp: affix_free_def split: option.splits)
  with assms(1) have n: "n = normalize_with p s"
    by (simp add: normalizeName_def)
  have clean: "trim n = n" "remove_punctuation n = n" "collapse_spaces False n = n"
    using normalize_with_clean [of p s] by (simp_all add: n)
  from assms(2) p have free:
    "\<And>x. x \<in> set (fst p) \<Longrightarrow> \<not> prefix_matches x n"
    "\<And>x. x \<in> set (snd p) \<Longrightarrow> \<not> matches_somewhere (ws_plus (lit_ci x eos)) n"
    "\<And>L. L \<in> set noise_patterns \<Longrightarrow> \<not> matches_somewhere L n"
    by (auto simp: affix_free_def list_ex_iff)
  have 1: "fold remove_prefix (fst p) n = n"
    by (rule fold_fixed) (simp add: remove_prefix_fixed free(1))
  have 2: "fold remove_suffix (snd p) n = n"
    by (rule fold_fixed) (simp add: remove_suffix_def replace_to_end_fixed free(2))
  have 3: "fold replace_to_end noise_patterns n = n"
    by (rule fold_fixed) (simp add: replace_to_end_fixed free(3))
  have "normalize_with p n = n"
    by (simp add: normalize_with_def clean 1 2 3)
  then show ?thesis by (simp add: normalizeName_def p)
qed

theorem normalizeName_fixed_point_witness:
  "normalizeName ''Sameiet Solsiden Borettslag'' ''Norway'' = Inr ''Solsiden''
   \<and> affix_free ''Norway'' ''Solsiden''
   \<and> normalizeName ''Solsiden'' ''Norway'' = Inr ''Solsiden''"
proof -
  have 1: "normalizeName ''Sameiet Solsiden Borettslag'' ''Norway'' = Inr ''Solsiden''"
    by code_simp
  have 2: "affix_free ''Norway'' ''Solsiden''"
    by code_simp
  show ?thesis using 1 2 normalizeName_fixed_point [OF 1 2] by simp
qed

section \<open>Properties of the runs: what a facility without result leaves behind\<close>

lemma update_geocode_other_rows:
  assumes "asset_map_update_facility_geocode db t fid la lo s c = Inr db'"
    and "r \<in> set db" and "facility_id r \<noteq> fid"
  shows "r \<in> set db'"
  using assms
  by (auto simp: asset_map_update_facility_geocode_def image_iff split: if_splits sum.splits
      intro!: bexI [of _ r])

lemma rpc_Inr: "rpc e c run = Inr v \<Longrightarrow> run = Inr v"
  by (auto simp: rpc_def split: if_splits sum.splits)

lemma markFacilityFailed_marks:
  assumes "markFacilityFailed e db fid = Inr db'" and "r \<in> set db" and "facility_id r = fid"
  shows "r\<lparr>geocode_status := Failed, geocode_confidence := None, updated_at := clock e\<rparr>
           \<in> set db'"
proof -
  have "asset_map_update_facility_geocode db (clock e) fid None None Failed None = Inr db'"
    using assms(1) unfolding markFacilityFailed_def by (rule rpc_Inr)
  moreover have "list_ex (\<lambda>f. facility_id f = fid) db"
    using assms(2,3) by (auto simp: list_ex_iff)
  ultimately have "db' = map (\<lambda>f. if facility_id f = fid
      then f\<lparr>latitude := latitude f, longitude := longitude f, geocode_status := Failed,
             geocode_confidence := None, updated_at := clock e\<rparr> else f) db"
    by (auto simp: asset_map_update_facility_geocode_def)
  then show ?thesis using assms(2,3) by (auto simp: image_iff intro!: bexI [of _ r])
qed

lemma geocode_loop_step:
  assumes "geocode_loop e False (h # fs) st = Completed st'"
  shows "\<exists>s1. geocode_loop e False fs s1 = Completed st'
    \<and> ((fst (geocodeFacility e h) = None
          \<and> markFacilityFailed e (g_db st) (facility_id h) = Inr (g_db s1))
        \<or> (\<exists>res. fst (geocodeFacility e h) = Some res
              \<and> updateFacilityGeocode e (g_db st) (facility_id h) res = Inr (g_db s1)))"
proof -
  obtain result calls where gf: "geocodeFacility e h = (result, calls)"
    by (cases "geocodeFacility e h") auto
  let ?st1 = "st\<lparr>g_calls := g_calls st @ calls\<rparr>"
  show ?thesis
  proof (cases result)
    case None
    with assms gf obtain db' where
      w: "markFacilityFailed e (g_db st) (facility_id h) = Inr db'" and
      l: "geocode_loop e False fs (?st1\<lparr>g_db := db', g_failed := g_failed ?st1 + 1\<rparr>)
            = Completed st'"
      by (auto simp: Let_def split: sum.splits)
    show ?thesis
      using l w gf None
      by (intro exI [of _ "?st1\<lparr>g_db := db', g_failed := g_failed ?st1 + 1\<rparr>"]) simp
  next
    case (Some res)
    with assms gf obtain db' where
      w: "updateFacilityGeocode e (g_db st) (facility_id h) res = Inr db'" and
      l: "geocode_loop e False fs (?st1\<lparr>g_db := db', g_success := g_success ?st1 + 1\<rparr>)
            = Completed st'"
      by (auto simp: Let_def split: sum.splits)
    show ?thesis
      using l w gf Some
      by (intro exI [of _ "?st1\<lparr>g_db := db', g_success := g_success ?st1 + 1\<rparr>"]) auto
  qed
qed

lemma geocode_step_other_rows:
  assumes "markFacilityFailed e db fid = Inr db' \<or> (\<exists>res. updateFacilityGeocode e db fid res = Inr db')"
    and "r \<in> set db" and "facility_id r \<noteq> fid"
  shows "r \<in> set db'"
proof -
  from assms(1) obtain la lo s c where
    "asset_map_update_facility_geocode db (clock e) fid la lo s c = Inr db'"
    unfolding markFacilityFailed_def updateFacilityGeocode_def by (auto dest!: rpc_Inr)
  then show ?thesis using assms(2,3) by (rule update_geocode_other_rows)
qed

lemma geocode_loop_other_rows:
  "geocode_loop e False fs st = Completed st' \<Longrightarrow> r \<in> set (g_db st) \<Longrightarrow>
   facility_id r \<notin> facility_id ` set fs \<Longrightarrow> r \<in> set (g_db st')"
proof (induction fs arbitrary: st)
  case Nil
  then show ?case by simp
next
  case (Cons h fs)
  from geocode_loop_step [OF Cons.prems(1)] obtain s1 where
    loop: "geocode_loop e False fs s1 = Completed st'" and
    step: "markFacilityFailed e (g_db st) (facility_id h) = Inr (g_db s1)
      \<or> (\<exists>res. updateFacilityGeocode e (g_db st) (facility_id h) res = Inr (g_db s1))"
    by blast
  have "facility_id r \<noteq> facility_id h" using Cons.prems(3) by auto
  with step Cons.prems(2) have "r \<in> set (g_db s1)" by (rule geocode_step_other_rows)
  moreover have "facility_id r \<notin> facility_id ` set fs" using Cons.prems(3) by auto
  ultimately show ?case using Cons.IH [OF loop] by blast
qed

lemma geocode_loop_marks:
  "geocode_loop e False fs st = Completed st' \<Longrightarrow> distinct (map facility_id fs) \<Longrightarrow>
   f \<in> set fs \<Longrightarrow> fst (geocodeFacility e f) = None \<Longrightarrow> r \<in> set (g_db st) \<Longrightarrow>
   facility_id r = facility_id f \<Longrightarrow>
   r\<lparr>geocode_status := Failed, geocode_confidence := None, updated_at := clock e\<rparr>
     \<in> set (g_db st')"
proof (induction fs arbitrary: st)
  case Nil
  then show ?case by simp
next
  case (Cons h fs)
  from geocode_loop_step [OF Cons.prems(1)] obtain s1 where
    loop: "geocode_loop e False fs s1 = Completed st'" and
    step: "(fst (geocodeFacility e h) = None
          \<and> markFacilityFailed e (g_db st) (facility_id h) = Inr (g_db s1))
      \<or> (\<exists>res. fst (geocodeFacility e h) = Some res
            \<and> updateFacilityGeocode e (g_db st) (facility_id h) res = Inr (g_db s1))"
    by blast
  then have step': "markFacilityFailed e (g_db st) (facility_id h) = Inr (g_db s1)
      \<or> (\<exists>res. updateFacilityGeocode e (g_db st) (facility_id h) res = Inr (g_db s1))"
    by blast
  have dist: "distinct (map facility_id fs)" and fresh: "facility_id h \<notin> facility_id ` set fs"
    using Cons.prems(2) by auto
  show ?case
  proof (cases "facility_id f = facility_id h")
    case True
    have "f = h"
    proof (rule ccontr)
      assume "f \<noteq> h"
      with Cons.prems(3) have "f \<in> set fs" by simp
      then have "facility_id f \<in> facility_id ` set fs" by (rule imageI)
      with True fresh show False by simp
    qed
    from Cons.prems(4) \<open>f = h\<close> have "fst (geocodeFacility e h) = None" by simp
    with step have m: "markFacilityFailed e (g_db st) (facility_id h) = Inr (g_db s1)"
      by auto
    have "r\<lparr>geocode_status := Failed, geocode_confidence := None, updated_at := clock e\<rparr>
        \<in> set (g_db s1)"
      using m Cons.prems(5) by (rule markFacilityFailed_marks) (simp add: Cons.prems(6) True)
    moreover have "facility_id
        (r\<lparr>geocode_status := Failed, geocode_confidence := None, updated_at := clock e\<rparr>)
        \<notin> facility_id ` set fs"
      using fresh Cons.prems(6) True by simp
    ultimately show ?thesis using loop by (rule geocode_loop_other_rows [rotated])
  next
    case False
    then have "f \<in> set fs" using Cons.prems(3) by auto
    moreover have "r \<in> set (g_db s1)"
      using step' Cons.prems(5)
      by (rule geocode_step_other_rows) (simp add: Cons.prems(6) False)
    ultimately show ?thesis
      using Cons.IH [OF loop dist _ Cons.prems(4) _ Cons.prems(6)] by blast
  qed
qed

lemma update_hubspot_other_rows:
  assumes "asset_map_update_facility_from_hubspot db t fid h a c p = Inr db'"
    and "r \<in> set db" and "facility_id r \<noteq> fid"
  shows "r \<in> set db'"
  using assms
  by (auto simp: asset_map_update_facility_from_hubspot_def image_iff split: if_splits
      intro!: bexI [of _ r])

lemma record_match_other_rows:
  assumes "r \<in> set (s_db st)" and "facility_id r \<noteq> facility_id f"
  shows "r \<in> set (s_db (record_match e opts f company st))"
proof (cases "updateFacility e (s_db st) f company")
  case (Inl x)
  then show ?thesis using assms(1) by (simp add: record_match_def Let_def)
next
  case (Inr db')
  then have "asset_map_update_facility_from_hubspot (s_db st) (clock e) (facility_id f)
      (Some (company_id company)) (or_null (prop_address company)) (or_null (prop_city company))
      (or_null (prop_zip company)) = Inr db'"
    unfolding updateFacility_def by (rule rpc_Inr)
  then have "r \<in> set db'" using assms by (rule update_hubspot_other_rows)
  then show ?thesis using assms(1) Inr by (simp add: record_match_def Let_def)
qed

lemma process_facility_other_rows:
  assumes "r \<in> set (s_db st)" and "facility_id r \<noteq> facility_id f"
  shows "r \<in> set (s_db (process_facility e opts f st))"
  using assms record_match_other_rows [of r _ f e opts]
  by (auto simp: process_facility_def record_result_def Let_def split: sum.splits option.splits)

lemma process_facility_no_match:
  assumes "\<forall>res. searchHubSpotCompany e f = Inr res \<longrightarrow> mr_company res = None"
  shows "s_db (process_facility e opts f st) = s_db st"
  using assms
  by (auto simp: process_facility_def record_result_def Let_def split: sum.splits option.splits)

lemma fold_process_facility_keeps:
  "r \<in> set (s_db st) \<Longrightarrow>
   (\<And>f. f \<in> set fs \<Longrightarrow> facility_id f = facility_id r \<Longrightarrow>
      \<forall>res. searchHubSpotCompany e f = Inr res \<longrightarrow> mr_company res = None) \<Longrightarrow>
   r \<in> set (s_db (fold (process_facility e opts) fs st))"
proof (induction fs arbitrary: st)
  case Nil
  then show ?case by simp
next
  case (Cons h fs)
  have "r \<in> set (s_db (process_facility e opts h st))"
  proof (cases "facility_id h = facility_id r")
    case True
    then have "s_db (process_facility e opts h st) = s_db st"
      using Cons.prems(2) [of h] by (intro process_facility_no_match) simp
    then show ?thesis using Cons.prems(1) by simp
  next
    case False
    then show ?thesis using Cons.prems(1) by (intro process_facility_other_rows) auto
  qed
  then have "r \<in> set (s_db (fold (process_facility e opts) fs (process_facility e opts h st)))"
    using Cons.prems(2) by (intro Cons.IH) auto
  then show ?case by simp
qed

lemma sync_batches_keeps:
  "r \<in> set (s_db st) \<Longrightarrow>
   (\<And>f. f \<in> set fs \<Longrightarrow> facility_id f = facility_id r \<Longrightarrow>
      \<forall>res. searchHubSpotCompany e f = Inr res \<longrightarrow> mr_company res = None) \<Longrightarrow>
   r \<in> set (s_db (sync_batches e opts fs i st))"
proof (induction e opts fs i st rule: sync_batches.induct)
  case (1 e opts facilities i st)
  show ?case
  proof (cases "i < length facilities")
    case True
    have "r \<in> set (s_db (fold (process_facility e opts) (take 50 (drop i facilities)) st))"
      using "1.prems"(1)
    proof (rule fold_process_facility_keeps)
      fix f
      assume "f \<in> set (take 50 (drop i facilities))" and "facility_id f = facility_id r"
      moreover have "set (take 50 (drop i facilities)) \<subseteq> set facilities"
        by (meson set_take_subset set_drop_subset subset_trans)
      ultimately show "\<forall>res. searchHubSpotCompany e f = Inr res \<longrightarrow> mr_company res = None"
        using "1.prems"(2) by blast
    qed
    then have "r \<in> set (s_db (sync_batches e opts facilities (i + 50)
        (fold (process_facility e opts) (take 50 (drop i facilities)) st)))"
      using True "1.prems"(2) by (intro "1.IH") auto
    then show ?thesis using True by (subst sync_batches.simps) simp
  next
    case False
    then show ?thesis using "1.prems"(1) by (subst sync_batches.simps) simp
  qed
qed

lemma sql_limit_subset: "sql_limit l rows = Inr fs \<Longrightarrow> set fs \<subseteq> set rows"
  by (auto simp: sql_limit_def split: option.splits if_splits dest: in_set_takeD)

lemma sync_backlog_rows:
  assumes "asset_map_get_facilities_for_sync db l c = Inr fs" and "f \<in> set fs"
  shows "f \<in> set db \<and> needs_sync c f"
  using sql_limit_subset [OF assms(1) [unfolded asset_map_get_facilities_for_sync_def]] assms(2)
  by auto

lemma geocoding_backlog_rows:
  assumes "asset_map_get_facilities_for_geocoding db c l = Inr fs" and "f \<in> set fs"
  shows "f \<in> set db \<and> needs_geocoding c f"
  using sql_limit_subset [OF assms(1) [unfolded asset_map_get_facilities_for_geocoding_def]]
    assms(2)
  by auto

lemma sql_limit_distinct:
  "sql_limit l rows = Inr fs \<Longrightarrow> distinct (map k rows) \<Longrightarrow> distinct (map k fs)"
  by (auto simp: sql_limit_def take_map [symmetric] split: option.splits if_splits)

lemma geocoding_backlog_distinct:
  assumes "asset_map_get_facilities_for_geocoding db c l = Inr fs"
    and "distinct (map facility_id db)"
  shows "distinct (map facility_id fs)"
proof -
  let ?rows = "sort_key (\<lambda>f. (country f, facility_name f)) (filter (needs_geocoding c) db)"
  have "distinct db" and inj: "inj_on facility_id (set db)"
    using assms(2) by (simp_all add: distinct_map)
  then have "distinct ?rows" by simp
  moreover have "inj_on facility_id (set ?rows)"
    using inj by (rule inj_on_subset) auto
  ultimately have "distinct (map facility_id ?rows)" by (simp add: distinct_map)
  with assms(1) show ?thesis
    unfolding asset_map_get_facilities_for_geocoding_def by (rule sql_limit_distinct)
qed

lemma unlimited_geocoding_backlog:
  "asset_map_get_facilities_for_geocoding db c None
     = Inr (sort_key (\<lambda>f. (country f, facility_name f)) (filter (needs_geocoding c) db))"
  by (simp add: asset_map_get_facilities_for_geocoding_def sql_limit_def)

lemma unlimited_sync_backlog:
  "asset_map_get_facilities_for_sync db None c
     = Inr (sort_key facility_name (filter (needs_sync c) db))"
  by (simp add: asset_map_get_facilities_for_sync_def sql_limit_def)

lemma geocode_main_Completed:
  assumes "geocode_main e gopts db = Completed st"
    and "asset_map_get_facilities_for_geocoding db (or_null (countryFilter gopts))
           (geo_limit gopts) = Inr fs"
    and "fs \<noteq> []" and "\<not> geo_dryRun gopts"
  shows "geocode_loop e False fs \<lparr>g_db = db, g_success = 0, g_failed = 0, g_calls = []\<rparr>
    = Completed st"
proof (cases "rpc e Get_facilities_for_geocoding (Inr fs :: rpc_error + facility list)")
  case (Inl x)
  then show ?thesis using assms(1) by (simp add: geocode_main_def assms(2))
next
  case (Inr v)
  then have "v = fs" by (auto dest: rpc_Inr)
  with Inr show ?thesis using assms(1,3,4) by (simp add: geocode_main_def assms(2))
qed

lemma syncHubSpotAddresses_Completed:
  assumes "syncHubSpotAddresses e sopts db = Completed sst"
    and "asset_map_get_facilities_for_sync db (Some (limit_or_5000 (limit sopts)))
           (or_null (country_option sopts)) = Inr gs"
    and "gs \<noteq> []"
  shows "sst = sync_batches e sopts gs 0 (sync_start db)"
proof (cases "\<not> truthy (HUBSPOT_API_KEY e) \<or> \<not> truthy (SUPABASE_URL e)
    \<or> \<not> truthy (SUPABASE_KEY e)")
  case True
  then show ?thesis using assms(1) by (simp add: syncHubSpotAddresses_def)
next
  case False
  show ?thesis
  proof (cases "rpc e Get_facilities_for_sync (Inr gs :: rpc_error + facility list)")
    case (Inl x)
    then show ?thesis using assms(1) False by (simp add: syncHubSpotAddresses_def assms(2))
  next
    case (Inr v)
    then have "v = gs" by (auto dest: rpc_Inr)
    with Inr show ?thesis
      using assms(1,3) False by (simp add: syncHubSpotAddresses_def assms(2))
  qed
qed

text \<open>
  C1, as the claim states it, fails in both stages. Geocoding: the facility without result is
  marked failed, and the backlog query, which selects on address and latitude only, returns it
  again. Matching: for the facility without match nothing is written (the table after the run
  is the table before it), and the backlog query returns it again.
\<close>

theorem no_result_facility_selected_again:
  "geocode_main ex_env geo_opts [kv_row]
     = Completed \<lparr>g_db = [kv_row\<lparr>geocode_status := Failed, updated_at := 7\<rparr>],
                   g_success = 0, g_failed = 1,
                   g_calls = [Kartverket_call ''Kongens gate 1 0150'',
                              Kartverket_call ''Kongens gate 1 Oslo'']\<rparr>
   \<and> asset_map_get_facilities_for_geocoding [kv_row\<lparr>geocode_status := Failed, updated_at := 7\<rparr>]
        None (Some 100)
     = Inr [kv_row\<lparr>geocode_status := Failed, updated_at := 7\<rparr>]
   \<and> searchHubSpotCompany ex_env tok_row = Inr (no_match tok_row)
   \<and> syncHubSpotAddresses ex_env sync_opts [tok_row]
     = Completed ((sync_start [tok_row])
         \<lparr>processed := 1,
          byMatchType := [(Exact_match, 0), (Normalized_match, 0), (Token_match, 0),
                          (Fuzzy_match, 0), (None_match, 1)],
          byCountry := [(''Norway'', 0, 1)]\<rparr>)
   \<and> asset_map_get_facilities_for_sync [tok_row] (Some 5000) None = Inr [tok_row]"
  by code_simp

text \<open>
  C1, amended. In a table with distinct facility ids: after a completed geocoding run that is
  not dry, every fetched facility whose geocoding ended with no result is stored with geocode
  status failed; after a completed matching run, the row of every fetched facility whose search
  ended with no match (or threw) is stored as it was, with no failure marker. In both stages
  the stored row still satisfies the selection of the stage's backlog query, which returns it
  again on a later run (here with no limit).
\<close>

theorem no_result_outcome_persisted:
  assumes "distinct (map facility_id db)"
  shows
    "(geocode_main e gopts db = Completed st \<and> \<not> geo_dryRun gopts
        \<and> asset_map_get_facilities_for_geocoding db (or_null (countryFilter gopts))
             (geo_limit gopts) = Inr fs
        \<and> f \<in> set fs \<and> fst (geocodeFacility e f) = None
      \<longrightarrow> f\<lparr>geocode_status := Failed, geocode_confidence := None, updated_at := clock e\<rparr>
            \<in> set (g_db st)
          \<and> (\<exists>rows. asset_map_get_facilities_for_geocoding (g_db st)
                       (or_null (countryFilter gopts)) None = Inr rows
                \<and> f\<lparr>geocode_status := Failed, geocode_confidence := None,
                      updated_at := clock e\<rparr> \<in> set rows))
     \<and> (syncHubSpotAddresses e sopts db = Completed sst
        \<and> asset_map_get_facilities_for_sync db (Some (limit_or_5000 (limit sopts)))
             (or_null (country_option sopts)) = Inr gs
        \<and> g \<in> set gs
        \<and> (\<forall>res. searchHubSpotCompany e g = Inr res \<longrightarrow> mr_company res = None)
      \<longrightarrow> g \<in> set (s_db sst)
          \<and> (\<exists>rows. asset_map_get_facilities_for_sync (s_db sst) None
                       (or_null (country_option sopts)) = Inr rows
                \<and> g \<in> set rows))"
proof (intro conjI impI)
  assume a: "geocode_main e gopts db = Completed st \<and> \<not> geo_dryRun gopts
        \<and> asset_map_get_facilities_for_geocoding db (or_null (countryFilter gopts))
             (geo_limit gopts) = Inr fs
        \<and> f \<in> set fs \<and> fst (geocodeFacility e f) = None"
  let ?f' = "f\<lparr>geocode_status := Failed, geocode_confidence := None, updated_at := clock e\<rparr>"
  let ?st0 = "\<lparr>g_db = db, g_success = 0, g_failed = 0, g_calls = []\<rparr>"
  from a have q: "asset_map_get_facilities_for_geocoding db (or_null (countryFilter gopts))
      (geo_limit gopts) = Inr fs" and f: "f \<in> set fs" by simp_all
  then have fs: "fs \<noteq> []" by auto
  from a have m: "geocode_main e gopts db = Completed st" and nd: "\<not> geo_dryRun gopts"
    by simp_all
  have loop: "geocode_loop e False fs ?st0 = Completed st"
    by (rule geocode_main_Completed [OF m q fs nd])
  have row: "f \<in> set db" and need: "needs_geocoding (or_null (countryFilter gopts)) f"
    using geocoding_backlog_rows [OF q f] by simp_all
  have "distinct (map facility_id fs)"
    using q assms by (rule geocoding_backlog_distinct)
  with loop have "?f' \<in> set (g_db st)"
    using f a row by (intro geocode_loop_marks [of e fs ?st0 st f f]) simp_all
  then show "?f' \<in> set (g_db st)" .
  moreover have "needs_geocoding (or_null (countryFilter gopts)) ?f'"
    using need by (simp add: needs_geocoding_def)
  ultimately show "\<exists>rows. asset_map_get_facilities_for_geocoding (g_db st)
      (or_null (countryFilter gopts)) None = Inr rows \<and> ?f' \<in> set rows"
    by (simp add: unlimited_geocoding_backlog)
next
  assume a: "syncHubSpotAddresses e sopts db = Completed sst
        \<and> asset_map_get_facilities_for_sync db (Some (limit_or_5000 (limit sopts)))
             (or_null (country_option sopts)) = Inr gs
        \<and> g \<in> set gs
        \<and> (\<forall>res. searchHubSpotCompany e g = Inr res \<longrightarrow> mr_company res = None)"
  then have q: "asset_map_get_facilities_for_sync db (Some (limit_or_5000 (limit sopts)))
      (or_null (country_option sopts)) = Inr gs" and g: "g \<in> set gs" by simp_all
  then have gs: "gs \<noteq> []" by auto
  from a have m: "syncHubSpotAddresses e sopts db = Completed sst" by simp
  have run: "sst = sync_batches e sopts gs 0 (sync_start db)"
    by (rule syncHubSpotAddresses_Completed [OF m q gs])
  have row: "g \<in> set db" and need: "needs_sync (or_null (country_option sopts)) g"
    using sync_backlog_rows [OF q g] by simp_all
  have inj: "inj_on facility_id (set db)"
    using assms by (simp add: distinct_map)
  have "g \<in> set (s_db (sync_batches e sopts gs 0 (sync_start db)))"
  proof (rule sync_batches_keeps)
    show "g \<in> set (s_db (sync_start db))" using row by (simp add: sync_start_def)
  next
    fix h
    assume "h \<in> set gs" and "facility_id h = facility_id g"
    then have "h \<in> set db" using sync_backlog_rows [OF q] by blast
    with inj row \<open>facility_id h = facility_id g\<close> have "h = g" by (auto dest: inj_onD)
    with a show "\<forall>res. searchHubSpotCompany e h = Inr res \<longrightarrow> mr_company res = None"
      by simp
  qed
  then show "g \<in> set (s_db sst)" by (simp add: run)
  with need show "\<exists>rows. asset_map_get_facilities_for_sync (s_db sst) None
      (or_null (country_option sopts)) = Inr rows \<and> g \<in> set rows"
    by (simp add: unlimited_sync_backlog)
qed

theorem no_result_outcome_persisted_witness:
  "geocode_main ex_env geo_opts [kv_row, tok_row]
     = Completed \<lparr>g_db = [kv_row\<lparr>geocode_status := Failed, updated_at := 7\<rparr>, tok_row],
                   g_success = 0, g_failed = 1,
                   g_calls = [Kartverket_call ''Kongens gate 1 0150'',
                              Kartverket_call ''Kongens gate 1 Oslo'']\<rparr>
   \<and> kv_row\<lparr>geocode_status := Failed, geocode_confidence := None, updated_at := clock ex_env\<rparr>
       \<in> set [kv_row\<lparr>geocode_status := Failed, updated_at := 7\<rparr>, tok_row]
   \<and> syncHubSpotAddresses ex_env sync_opts [kv_row, tok_row]
     = Completed ((sync_start [kv_row, tok_row])
         \<lparr>processed := 1,
          byMatchType := [(Exact_match, 0), (Normalized_match, 0), (Token_match, 0),
                          (Fuzzy_match, 0), (None_match, 1)],
          byCountry := [(''Norway'', 0, 1)]\<rparr>)
   \<and> tok_row \<in> set [kv_row, tok_row]"
proof -
  let ?G = "\<lparr>g_db = [kv_row\<lparr>geocode_status := Failed, updated_at := 7\<rparr>, tok_row],
             g_success = 0, g_failed = 1,
             g_calls = [Kartverket_call ''Kongens gate 1 0150'',
                        Kartverket_call ''Kongens gate 1 Oslo'']\<rparr>"
  let ?S = "(sync_start [kv_row, tok_row])
         \<lparr>processed := 1,
          byMatchType := [(Exact_match, 0), (Normalized_match, 0), (Token_match, 0),
                          (Fuzzy_match, 0), (None_match, 1)],
          byCountry := [(''Norway'', 0, 1)]\<rparr>"
  have d: "distinct (map facility_id [kv_row, tok_row])"
    by code_simp
  have g1: "geocode_main ex_env geo_opts [kv_row, tok_row] = Completed ?G"
    by code_simp
  have g2: "\<not> geo_dryRun geo_opts"
    by code_simp
  have g3: "asset_map_get_facilities_for_geocoding [kv_row, tok_row]
      (or_null (countryFilter geo_opts)) (geo_limit geo_opts) = Inr [kv_row]"
    by code_simp
  have g4: "fst (geocodeFacility ex_env kv_row) = None"
    by code_simp
  have s1: "syncHubSpotAddresses ex_env sync_opts [kv_row, tok_row] = Completed ?S"
    by code_simp
  have s2: "asset_map_get_facilities_for_sync [kv_row, tok_row]
      (Some (limit_or_5000 (limit sync_opts))) (or_null (country_option sync_opts))
      = Inr [tok_row]"
    by code_simp
  have s3: "searchHubSpotCompany ex_env tok_row = Inr (no_match tok_row)"
    by code_simp
  have s4: "\<forall>res. searchHubSpotCompany ex_env tok_row = Inr res \<longrightarrow> mr_company res = None"
    by (simp add: s3 no_match_def)
  have db1: "g_db ?G = [kv_row\<lparr>geocode_status := Failed, updated_at := 7\<rparr>, tok_row]"
    by simp
  have db2: "s_db ?S = [kv_row, tok_row]"
    by (simp add: sync_start_def)
  from no_result_outcome_persisted [OF d, where e = ex_env and gopts = geo_opts and st = ?G
      and fs = "[kv_row]" and f = kv_row and sopts = sync_opts and sst = ?S
      and gs = "[tok_row]" and g = tok_row] g1 g2 g3 g4 s1 s2 s4
  have "kv_row\<lparr>geocode_status := Failed, geocode_confidence := None, updated_at := clock ex_env\<rparr>
       \<in> set (g_db ?G) \<and> tok_row \<in> set (s_db ?S)"
    by simp
  then show ?thesis using g1 s1 unfolding db1 db2 by simp
qed

end
